theory Spec2Isabelle
  imports Complex_Main
begin

section \<open>Errors and tensors\<close>

text \<open>
  The Python exceptions that the code of \<^verbatim>\<open>student_wavenet.py\<close> can raise by itself.
  A computation that may raise returns \<open>error + 'a\<close>, \<open>Inl\<close> being the exception.
\<close>

datatype error =
  AssertionError | AttributeError | IndexError | RuntimeError
  | TypeError | ValueError | ZeroDivisionError

definition then_do :: "error + 'a \<Rightarrow> ('a \<Rightarrow> error + 'b) \<Rightarrow> error + 'b" where
  "then_do r f = (case r of Inl e \<Rightarrow> Inl e | Inr v \<Rightarrow> f v)"

text \<open>
  A \<^verbatim>\<open>for\<close> loop whose body may raise: the loop variable runs over the list, the
  loop state is threaded, the first exception ends the loop.
\<close>

fun for_loop :: "'i list \<Rightarrow> ('i \<Rightarrow> 's \<Rightarrow> error + 's) \<Rightarrow> 's \<Rightarrow> error + 's" where
  "for_loop [] body s = Inr s"
| "for_loop (i # is) body s =
     (case body i s of Inl e \<Rightarrow> Inl e | Inr s' \<Rightarrow> for_loop is body s')"

text \<open>
  A tensor is its size (\<^verbatim>\<open>x.size()\<close>) and its elements, read at a multi-index.
  Elements are real numbers: floating-point rounding is not modelled.
\<close>

record tensor =
  size_of :: "nat list"
  elt :: "nat list \<Rightarrow> real"

definition full :: "nat list \<Rightarrow> real \<Rightarrow> tensor" where
  \<comment> \<open>\<^verbatim>\<open>torch.rand(size).fill_(v)\<close>, \<^verbatim>\<open>torch.zeros(size)\<close>\<close>
  "full sh v = \<lparr>size_of = sh, elt = (\<lambda>_. v)\<rparr>"

definition valid_index :: "nat list \<Rightarrow> nat list \<Rightarrow> bool" where
  "valid_index sh idx = list_all2 (\<lambda>i d. i < d) idx sh"

definition size_at :: "tensor \<Rightarrow> nat \<Rightarrow> error + nat" where
  \<comment> \<open>\<^verbatim>\<open>x.size(k)\<close>\<close>
  "size_at x k = (if k < length (size_of x) then Inr (size_of x ! k) else Inl IndexError)"

definition size_last :: "tensor \<Rightarrow> error + nat" where
  \<comment> \<open>\<^verbatim>\<open>x.size(-1)\<close>\<close>
  "size_last x = (if size_of x = [] then Inl IndexError else Inr (last (size_of x)))"

subsection \<open>Broadcasting element-wise operations\<close>

definition bdim :: "nat \<Rightarrow> nat \<Rightarrow> nat option" where
  "bdim a b = (if a = b then Some a else if a = 1 then Some b
               else if b = 1 then Some a else None)"

text \<open>Sizes are aligned at their last dimension, so the recursion runs on the reversed sizes.\<close>

fun bshape_rev :: "nat list \<Rightarrow> nat list \<Rightarrow> nat list option" where
  "bshape_rev [] bs = Some bs"
| "bshape_rev (a # as) [] = Some (a # as)"
| "bshape_rev (a # as) (b # bs) =
     (case bdim a b of None \<Rightarrow> None
      | Some d \<Rightarrow> (case bshape_rev as bs of None \<Rightarrow> None | Some ds \<Rightarrow> Some (d # ds)))"

definition broadcast_shape :: "nat list \<Rightarrow> nat list \<Rightarrow> nat list option" where
  "broadcast_shape a b = map_option rev (bshape_rev (rev a) (rev b))"

definition bidx :: "nat list \<Rightarrow> nat list \<Rightarrow> nat list" where
  \<comment> \<open>the index at which an operand of size \<open>sh\<close> is read for the result index \<open>idx\<close>\<close>
  "bidx sh idx = rev (map2 (\<lambda>d i. if d = 1 then 0 else i) (rev sh) (rev idx))"

definition bop :: "(real \<Rightarrow> real \<Rightarrow> real) \<Rightarrow> tensor \<Rightarrow> tensor \<Rightarrow> error + tensor" where
  "bop f x y =
     (case broadcast_shape (size_of x) (size_of y) of
        None \<Rightarrow> Inl RuntimeError
      | Some sh \<Rightarrow>
          Inr \<lparr>size_of = sh,
               elt = (\<lambda>idx. f (elt x (bidx (size_of x) idx)) (elt y (bidx (size_of y) idx)))\<rparr>)"

definition tmul :: "tensor \<Rightarrow> tensor \<Rightarrow> error + tensor" where
  "tmul = bop (\<lambda>a b. a * b)"

definition tadd :: "tensor \<Rightarrow> tensor \<Rightarrow> error + tensor" where
  "tadd = bop (\<lambda>a b. a + b)"

definition tscale :: "tensor \<Rightarrow> real \<Rightarrow> tensor" where
  \<comment> \<open>a tensor times a Python float\<close>
  "tscale x r = x\<lparr>elt := (\<lambda>idx. elt x idx * r)\<rparr>"

definition texp :: "tensor \<Rightarrow> tensor" where
  "texp x = x\<lparr>elt := (\<lambda>idx. exp (elt x idx))\<rparr>"

subsection \<open>Slicing, transposition, views\<close>

definition narrow_to :: "nat \<Rightarrow> tensor \<Rightarrow> error + tensor" where
  \<comment> \<open>\<^verbatim>\<open>x[:, :k, :]\<close>\<close>
  "narrow_to k x =
     (case size_of x of
        b # c # t # rest \<Rightarrow> Inr (x\<lparr>size_of := b # min k c # t # rest\<rparr>)
      | _ \<Rightarrow> Inl IndexError)"

definition narrow_from :: "nat \<Rightarrow> tensor \<Rightarrow> error + tensor" where
  \<comment> \<open>\<^verbatim>\<open>x[:, k:, :]\<close>\<close>
  "narrow_from k x =
     (case size_of x of
        b # c # t # rest \<Rightarrow>
          Inr \<lparr>size_of = b # (c - k) # t # rest,
               elt = (\<lambda>idx. case idx of
                        i # j # is \<Rightarrow> elt x (i # (j + k) # is)
                      | _ \<Rightarrow> elt x idx)\<rparr>
      | _ \<Rightarrow> Inl IndexError)"

definition swap :: "nat \<Rightarrow> nat \<Rightarrow> 'a list \<Rightarrow> 'a list" where
  "swap i j xs = xs[i := xs ! j, j := xs ! i]"

definition transpose :: "nat \<Rightarrow> nat \<Rightarrow> tensor \<Rightarrow> error + tensor" where
  \<comment> \<open>\<^verbatim>\<open>x.transpose(i, j)\<close>\<close>
  "transpose i j x =
     (if i < length (size_of x) \<and> j < length (size_of x)
      then Inr \<lparr>size_of = swap i j (size_of x), elt = (\<lambda>idx. elt x (swap i j idx))\<rparr>
      else Inl IndexError)"

definition select1 :: "nat \<Rightarrow> tensor \<Rightarrow> error + tensor" where
  \<comment> \<open>\<^verbatim>\<open>x[:, t, :]\<close>\<close>
  "select1 t x =
     (case size_of x of
        b # n # c # rest \<Rightarrow>
          if t < n
          then Inr \<lparr>size_of = b # c # rest,
                    elt = (\<lambda>idx. case idx of i # is \<Rightarrow> elt x (i # t # is) | [] \<Rightarrow> elt x [])\<rparr>
          else Inl IndexError
      | _ \<Rightarrow> Inl IndexError)"

definition unsqueeze1 :: "tensor \<Rightarrow> error + tensor" where
  \<comment> \<open>\<^verbatim>\<open>x.unsqueeze(1)\<close>\<close>
  "unsqueeze1 x =
     (case size_of x of
        b # rest \<Rightarrow>
          Inr \<lparr>size_of = b # 1 # rest,
               elt = (\<lambda>idx. case idx of i # j # is \<Rightarrow> elt x (i # is) | _ \<Rightarrow> elt x idx)\<rparr>
      | [] \<Rightarrow> Inl IndexError)"

definition squeeze1 :: "tensor \<Rightarrow> error + tensor" where
  \<comment> \<open>\<^verbatim>\<open>x.squeeze(1)\<close>: the dimension is removed when its size is 1\<close>
  "squeeze1 x =
     (case size_of x of
        b # n # rest \<Rightarrow>
          if n = 1
          then Inr \<lparr>size_of = b # rest,
                    elt = (\<lambda>idx. case idx of i # is \<Rightarrow> elt x (i # 0 # is) | [] \<Rightarrow> elt x [])\<rparr>
          else Inr x
      | _ \<Rightarrow> Inl IndexError)"

definition time_slice :: "nat \<Rightarrow> tensor \<Rightarrow> error + tensor" where
  \<comment> \<open>\<^verbatim>\<open>x[:, t, :].unsqueeze(1)\<close>\<close>
  "time_slice t x = then_do (select1 t x) unsqueeze1"

fun unravel :: "nat list \<Rightarrow> nat \<Rightarrow> nat list" where
  "unravel [] k = []"
| "unravel (d # ds) k = (k div prod_list ds) # unravel ds (k mod prod_list ds)"

fun ravel :: "nat list \<Rightarrow> nat list \<Rightarrow> nat" where
  "ravel (d # ds) (i # is) = i * prod_list ds + ravel ds is"
| "ravel _ _ = 0"

definition reshape :: "nat list \<Rightarrow> tensor \<Rightarrow> tensor" where
  \<comment> \<open>the same elements in row-major order under another size\<close>
  "reshape sh x = \<lparr>size_of = sh, elt = (\<lambda>idx. elt x (unravel (size_of x) (ravel sh idx)))\<rparr>"

definition view_rows :: "nat \<Rightarrow> tensor \<Rightarrow> error + tensor" where
  \<comment> \<open>\<^verbatim>\<open>x.view(B, -1)\<close>\<close>
  "view_rows B x =
     (if B = 0 \<or> prod_list (size_of x) mod B \<noteq> 0 then Inl RuntimeError
      else Inr (reshape [B, prod_list (size_of x) div B] x))"

definition view_rows1 :: "nat \<Rightarrow> tensor \<Rightarrow> error + tensor" where
  \<comment> \<open>\<^verbatim>\<open>x.view(B, -1, 1)\<close>\<close>
  "view_rows1 B x =
     (if B = 0 \<or> prod_list (size_of x) mod B \<noteq> 0 then Inl RuntimeError
      else Inr (reshape [B, prod_list (size_of x) div B, 1] x))"

definition flatten :: "tensor \<Rightarrow> real list" where
  \<comment> \<open>\<^verbatim>\<open>x.view(-1).data.cpu().numpy()\<close>\<close>
  "flatten x = map (\<lambda>k. elt x (unravel (size_of x) k)) [0..<prod_list (size_of x)]"

definition softmax1 :: "tensor \<Rightarrow> error + tensor" where
  \<comment> \<open>\<^verbatim>\<open>F.softmax(x, dim=1)\<close>\<close>
  "softmax1 x =
     (case size_of x of
        b # n # rest \<Rightarrow>
          Inr (x\<lparr>elt := (\<lambda>idx. case idx of
                         i # j # is \<Rightarrow>
                           exp (elt x idx) / (\<Sum>k\<leftarrow>[0..<n]. exp (elt x (i # k # is)))
                       | _ \<Rightarrow> elt x idx)\<rparr>)
      | _ \<Rightarrow> Inl IndexError)"

definition one_hot_column :: "nat \<Rightarrow> tensor \<Rightarrow> error + tensor" where
  \<comment> \<open>\<^verbatim>\<open>x.zero_(); x[:, sample] = 1.0\<close>\<close>
  "one_hot_column sample x =
     (case size_of x of
        b # n # rest \<Rightarrow>
          if sample < n
          then Inr (x\<lparr>elt := (\<lambda>idx. case idx of
                              i # j # is \<Rightarrow> if j = sample then 1 else 0
                            | _ \<Rightarrow> 0)\<rparr>)
          else Inl IndexError
      | _ \<Rightarrow> Inl IndexError)"

definition assign_last3 :: "nat \<Rightarrow> real \<Rightarrow> tensor \<Rightarrow> error + tensor" where
  \<comment> \<open>\<^verbatim>\<open>x[:, :, k] = v\<close>\<close>
  "assign_last3 k v x =
     (case size_of x of
        b # n # c # rest \<Rightarrow>
          if k < c
          then Inr (x\<lparr>elt := (\<lambda>idx. case idx of
                              i # j # l # is \<Rightarrow> if l = k then v else elt x idx
                            | _ \<Rightarrow> elt x idx)\<rparr>)
          else Inl IndexError
      | _ \<Rightarrow> Inl IndexError)"

definition stack :: "tensor list \<Rightarrow> error + tensor" where
  \<comment> \<open>\<^verbatim>\<open>torch.stack(outputs)\<close>: a new first dimension; the list must be non-empty, of one size\<close>
  "stack ts =
     (case ts of
        [] \<Rightarrow> Inl RuntimeError
      | t # _ \<Rightarrow>
          if list_all (\<lambda>u. size_of u = size_of t) ts
          then Inr \<lparr>size_of = length ts # size_of t,
                    elt = (\<lambda>idx. case idx of i # is \<Rightarrow> elt (ts ! i) is | [] \<Rightarrow> 0)\<rparr>
          else Inl RuntimeError)"

section \<open>The network object\<close>

text \<open>
  The layer classes (\<^verbatim>\<open>Conv1d1x1\<close>, \<^verbatim>\<open>ResidualConv1dGLU\<close>, \<^verbatim>\<open>ConvTranspose2d\<close>,
  \<^verbatim>\<open>Embedding\<close>) are imported by the module, not defined in it. A layer object is
  therefore its interface as the network uses it: the ordinary (batch) form, the
  incremental form, and the input history buffer that the incremental form reads and
  writes. The buffer is \<open>None\<close> when it is empty, as in a freshly constructed layer.
\<close>

type_synonym buffer = "tensor option"

record conv1d1x1 =
  cv_forward :: "tensor \<Rightarrow> error + tensor"
  cv_incremental :: "buffer \<Rightarrow> tensor \<Rightarrow> error + tensor \<times> buffer"
  cv_buffer :: buffer

record residual_layer =
  rl_forward :: "tensor \<Rightarrow> tensor option \<Rightarrow> tensor option \<Rightarrow> error + tensor \<times> tensor"
  rl_incremental ::
    "buffer \<Rightarrow> tensor \<Rightarrow> tensor option \<Rightarrow> tensor option \<Rightarrow> error + (tensor \<times> tensor) \<times> buffer"
  rl_buffer :: buffer

text \<open>
  A layer of the output projection head is either a layer with neither
  \<^verbatim>\<open>incremental_forward\<close> nor \<^verbatim>\<open>clear_buffer\<close> (\<^verbatim>\<open>nn.ReLU\<close>), or a
  \<^verbatim>\<open>Conv1d1x1\<close>, which has both.
\<close>

datatype head_layer = Stateless "tensor \<Rightarrow> error + tensor" | Streaming conv1d1x1

definition relu :: "tensor \<Rightarrow> error + tensor" where
  "relu x = Inr (x\<lparr>elt := (\<lambda>idx. max 0 (elt x idx))\<rparr>)"

text \<open>
  The attributes of a \<^verbatim>\<open>StudentWaveNet\<close> object. The constructor appends every residual
  layer both to \<^verbatim>\<open>conv_layers\<close> and to the flow step under construction, so the flow
  steps are consecutive runs of \<^verbatim>\<open>conv_layers\<close>, holding the same layer objects:
  \<open>iaf_sizes\<close> keeps the length of each run and \<open>iaf_layers\<close> cuts the runs out.

  \<open>last_conv_layers\<close> is \<open>None\<close> while the object has no attribute of that name, and
  \<open>Some\<close> once a caller has assigned one.
\<close>

record net =
  scalar_input :: bool
  out_channels :: int
  cin_channels :: int
  is_student :: bool
  last_layers :: "head_layer list"
  first_conv :: conv1d1x1
  iaf_sizes :: "nat list"
  conv_layers :: "residual_layer list"
  last_layer :: "head_layer list"
  last_conv_layers :: "head_layer list option"
  embed_speakers :: "(tensor \<Rightarrow> error + tensor) option"
  upsample_conv :: "(tensor \<Rightarrow> error + tensor) list option"
  receptive_field :: int

fun chop :: "nat list \<Rightarrow> 'a list \<Rightarrow> 'a list list" where
  "chop [] xs = []"
| "chop (n # ns) xs = take n xs # chop ns (drop n xs)"

definition iaf_layers :: "net \<Rightarrow> residual_layer list list" where
  "iaf_layers n = chop (iaf_sizes n) (conv_layers n)"

text \<open>
  What the module calls outside itself at run time: the random sources and
  \<^verbatim>\<open>_expand_global_features\<close>. \<open>logistic size\<close> is the array that
  \<^verbatim>\<open>np.random.logistic(0, 1, size)\<close> returns in the current state of the random source;
  the sampling functions of the incremental path take the number of the time step.
\<close>

record env =
  logistic :: "nat list \<Rightarrow> nat list \<Rightarrow> real"
  expand_global_features :: "nat \<Rightarrow> int \<Rightarrow> tensor option \<Rightarrow> bool \<Rightarrow> error + tensor option"
  sample_from_discretized_mix_logistic :: "nat \<Rightarrow> tensor \<Rightarrow> real \<Rightarrow> error + tensor"
  random_choice :: "nat \<Rightarrow> int \<Rightarrow> real list \<Rightarrow> error + nat"

section \<open>Conditioning, shared by both paths\<close>

definition embed_g :: "net \<Rightarrow> nat \<Rightarrow> tensor option \<Rightarrow> error + tensor option" where
  \<comment> \<open>lines 157-161 and 244-248\<close>
  "embed_g n B g =
     (case g of
        None \<Rightarrow> Inr None
      | Some gv \<Rightarrow>
          then_do (view_rows B gv) (\<lambda>g1.
            case embed_speakers n of
              None \<Rightarrow> Inl TypeError
            | Some emb \<Rightarrow>
                then_do (emb g1) (\<lambda>g2.
                  if length (size_of g2) \<noteq> 3 then Inl AssertionError
                  else then_do (transpose 1 2 g2) (\<lambda>g3. Inr (Some g3)))))"

definition upsample :: "net \<Rightarrow> tensor option \<Rightarrow> int \<Rightarrow> error + tensor option" where
  \<comment> \<open>lines 164-171 and 252-260; \<open>tlen\<close> is the time length asserted\<close>
  "upsample n c tlen =
     (case c of
        None \<Rightarrow> Inr None
      | Some cv \<Rightarrow>
          (case upsample_conv n of
             None \<Rightarrow> Inr (Some cv)
           | Some fs \<Rightarrow>
               then_do (unsqueeze1 cv) (\<lambda>c1.
               then_do (for_loop fs (\<lambda>f c. f c) c1) (\<lambda>c2.
               then_do (squeeze1 c2) (\<lambda>c3.
               then_do (size_last c3) (\<lambda>k.
                 if int k = tlen then Inr (Some c3) else Inl AssertionError))))))"

section \<open>The batch forward path\<close>

definition head_forward :: "head_layer \<Rightarrow> tensor \<Rightarrow> error + tensor" where
  \<comment> \<open>\<^verbatim>\<open>f(x)\<close> for a layer of the head\<close>
  "head_forward f x = (case f of Stateless h \<Rightarrow> h x | Streaming cv \<Rightarrow> cv_forward cv x)"

definition iaf_params ::
  "net \<Rightarrow> residual_layer list \<Rightarrow> tensor \<Rightarrow> tensor option \<Rightarrow> tensor option \<Rightarrow> error + tensor" where
  \<comment> \<open>lines 179-183: the network pass of one flow step\<close>
  "iaf_params n iaf z c g_bct =
     then_do (cv_forward (first_conv n) z) (\<lambda>new_z.
     then_do (for_loop iaf (\<lambda>f nz. then_do (rl_forward f nz c g_bct) (\<lambda>(nz', h). Inr nz')) new_z)
       (\<lambda>new_z. for_loop (last_layer n) head_forward new_z))"

definition iaf_step ::
  "net \<Rightarrow> tensor option \<Rightarrow> tensor option \<Rightarrow> residual_layer list
   \<Rightarrow> tensor \<times> tensor list \<times> tensor list \<Rightarrow> error + tensor \<times> tensor list \<times> tensor list" where
  \<comment> \<open>lines 179-187, on the loop state \<open>(z, s, m)\<close>\<close>
  "iaf_step n c g_bct iaf = (\<lambda>(z, s, m).
     then_do (iaf_params n iaf z c g_bct) (\<lambda>new_z.
     then_do (narrow_to 1 new_z) (\<lambda>mu_f.
     then_do (narrow_from 1 new_z) (\<lambda>log_scale.
       let scale_f = texp log_scale in
       then_do (tmul z scale_f) (\<lambda>zs.
       then_do (tadd zs mu_f) (\<lambda>z'.
         Inr (z', s @ [scale_f], m @ [mu_f])))))))"

definition compose_step ::
  "nat list \<Rightarrow> tensor list \<Rightarrow> tensor list \<Rightarrow> nat \<Rightarrow> tensor \<times> tensor \<Rightarrow> error + tensor \<times> tensor" where
  \<comment> \<open>lines 189-193: the body of the second loop, on the loop state \<open>(mu_tot, scale_tot)\<close>\<close>
  "compose_step zsize s m i = (\<lambda>(mu_tot, scale_tot).
     then_do (for_loop [i + 1..<length s] (\<lambda>j ss. tmul ss (s ! j)) (full zsize 1)) (\<lambda>ss.
       if i < length m
       then then_do (tmul (m ! i) ss) (\<lambda>mss.
            then_do (tadd mu_tot mss) (\<lambda>mu_tot'.
            then_do (tmul scale_tot (s ! i)) (\<lambda>scale_tot'.
              Inr (mu_tot', scale_tot'))))
       else Inl IndexError))"

definition compose_total ::
  "nat list \<Rightarrow> tensor list \<Rightarrow> tensor list \<Rightarrow> tensor \<Rightarrow> tensor \<Rightarrow> error + tensor \<times> tensor" where
  \<comment> \<open>lines 188-194: the second loop\<close>
  "compose_total zsize s m mu_tot scale_tot =
     for_loop [0..<length s] (compose_step zsize s m) (mu_tot, scale_tot)"

definition forward ::
  "env \<Rightarrow> net \<Rightarrow> tensor \<Rightarrow> tensor option \<Rightarrow> tensor option \<Rightarrow> error + tensor \<times> tensor" where
  "forward ev n x c g =
     (case size_of x of
        [B, C, T] \<Rightarrow>
          (let z = \<lparr>size_of = size_of x, elt = logistic ev (size_of x)\<rparr> in
           then_do (embed_g n B g) (\<lambda>g1.
           then_do (expand_global_features ev B (int T) g1 True) (\<lambda>g_bct.
           then_do (upsample n c (int (last (size_of x)))) (\<lambda>c1.
             let mu_tot = full (size_of z) 0;
                 scale_tot = full (size_of z) 1
             in then_do (for_loop (iaf_layers n) (iaf_step n c1 g_bct) (z, [], []))
                  (\<lambda>(z', s, m). compose_total (size_of z') s m mu_tot scale_tot)))))
      | _ \<Rightarrow> Inl ValueError)"

section \<open>The incremental generation path\<close>

text \<open>
  The incremental path mutates the layers' buffers, so its functions take the network
  and return it updated, together with the result or the exception. The network that
  comes with an exception is the state in which the exception leaves the object.
\<close>

fun for_loop_st ::
  "'i list \<Rightarrow> ('i \<Rightarrow> 's \<Rightarrow> 'n \<Rightarrow> 'n \<times> (error + 's)) \<Rightarrow> 's \<Rightarrow> 'n \<Rightarrow> 'n \<times> (error + 's)" where
  "for_loop_st [] body s n = (n, Inr s)"
| "for_loop_st (i # is) body s n =
     (case body i s n of
        (n', Inl e) \<Rightarrow> (n', Inl e)
      | (n', Inr s') \<Rightarrow> for_loop_st is body s' n')"

subsection \<open>Clearing the buffers\<close>

definition clear_head :: "head_layer \<Rightarrow> head_layer" where
  \<comment> \<open>lines 329-332: a layer without \<^verbatim>\<open>clear_buffer\<close> raises AttributeError, which is passed over\<close>
  "clear_head f = (case f of Stateless h \<Rightarrow> Stateless h
                   | Streaming cv \<Rightarrow> Streaming (cv\<lparr>cv_buffer := None\<rparr>))"

definition clear_buffer :: "net \<Rightarrow> net \<times> (error + unit)" where
  \<comment> \<open>lines 324-332; the lookup of \<^verbatim>\<open>self.last_conv_layers\<close> is outside the \<^verbatim>\<open>try\<close>\<close>
  "clear_buffer n =
     (let n1 = n\<lparr>first_conv := (first_conv n)\<lparr>cv_buffer := None\<rparr>\<rparr>;
          n2 = n1\<lparr>conv_layers := map (\<lambda>f. f\<lparr>rl_buffer := None\<rparr>) (conv_layers n1)\<rparr>
      in case last_conv_layers n2 of
           None \<Rightarrow> (n2, Inl AttributeError)
         | Some hs \<Rightarrow> (n2\<lparr>last_conv_layers := Some (map clear_head hs)\<rparr>, Inr ()))"

definition head_buffer :: "head_layer \<Rightarrow> buffer" where
  "head_buffer f = (case f of Stateless h \<Rightarrow> None | Streaming cv \<Rightarrow> cv_buffer cv)"

definition buffers_empty :: "net \<Rightarrow> bool" where
  \<comment> \<open>the streaming state of a freshly constructed network: no layer holds a buffer\<close>
  "buffers_empty n =
     (cv_buffer (first_conv n) = None
      \<and> list_all (\<lambda>f. rl_buffer f = None) (conv_layers n)
      \<and> (case last_conv_layers n of None \<Rightarrow> True
          | Some hs \<Rightarrow> list_all (\<lambda>f. head_buffer f = None) hs))"

subsection \<open>Before the loop: lines 223-276\<close>

definition reference_layout :: "net \<Rightarrow> tensor \<Rightarrow> error + tensor" where
  \<comment> \<open>lines 228-233\<close>
  "reference_layout n r =
     then_do (size_at r 1) (\<lambda>k.
       if scalar_input n
       then (if k = 1 then transpose 1 2 r else Inr r)
       else (if int k = out_channels n then transpose 1 2 r else Inr r))"

definition resolve_T ::
  "net \<Rightarrow> int option \<Rightarrow> tensor option \<Rightarrow> error + nat \<times> int \<times> tensor option" where
  \<comment> \<open>lines 223-241: the batch size, the step count and the reference in step layout\<close>
  "resolve_T n T test_inputs =
     (case test_inputs of
        None \<Rightarrow> (case T of None \<Rightarrow> Inl TypeError | Some k \<Rightarrow> Inr (1, k, None))
      | Some r \<Rightarrow>
          then_do (reference_layout n r) (\<lambda>r'.
          then_do (size_at r' 0) (\<lambda>B.
          then_do (size_at r' 1) (\<lambda>len.
            Inr (B, (case T of None \<Rightarrow> int len | Some k \<Rightarrow> max k (int len)), Some r')))))"

definition local_layout :: "tensor option \<Rightarrow> int \<Rightarrow> error + tensor option" where
  \<comment> \<open>lines 261-262\<close>
  "local_layout c T =
     (case c of
        None \<Rightarrow> Inr None
      | Some cv \<Rightarrow>
          then_do (size_last cv) (\<lambda>k.
            if int k = T then then_do (transpose 1 2 cv) (\<lambda>c'. Inr (Some c'))
            else Inr (Some cv)))"

definition default_initial_input :: "net \<Rightarrow> nat \<Rightarrow> error + tensor" where
  \<comment> \<open>lines 266-270\<close>
  "default_initial_input n B =
     (if scalar_input n then Inr (full [B, 1, 1] 0)
      else if out_channels n < 0 then Inl RuntimeError
      else assign_last3 127 1 (full [B, 1, nat (out_channels n)] 0))"

definition initial_sample :: "net \<Rightarrow> nat \<Rightarrow> tensor option \<Rightarrow> error + tensor" where
  \<comment> \<open>lines 265-276; moving the tensor to the device (line 273) changes no value\<close>
  "initial_sample n B initial_input =
     (case initial_input of
        None \<Rightarrow> default_initial_input n B
      | Some ii \<Rightarrow>
          then_do (size_at ii 1) (\<lambda>k.
            if int k = out_channels n then transpose 1 2 ii else Inr ii))"

subsection \<open>One time step: lines 280-314\<close>

definition select_input ::
  "tensor option \<Rightarrow> tensor list \<Rightarrow> tensor \<Rightarrow> nat \<Rightarrow> error + tensor" where
  \<comment> \<open>lines 280-284\<close>
  "select_input test_inputs outputs current_input t =
     (let previous = (if t > 0
                      then (if outputs = [] then Inl IndexError else Inr (last outputs))
                      else Inr current_input)
      in case test_inputs of
           None \<Rightarrow> previous
         | Some r \<Rightarrow> then_do (size_at r 1) (\<lambda>len. if t < len then time_slice t r else previous))"

definition local_slice :: "tensor option \<Rightarrow> nat \<Rightarrow> error + tensor option" where
  \<comment> \<open>line 287\<close>
  "local_slice c t =
     (case c of None \<Rightarrow> Inr None | Some cv \<Rightarrow> then_do (time_slice t cv) (\<lambda>ct. Inr (Some ct)))"

definition global_slice :: "tensor option \<Rightarrow> tensor option \<Rightarrow> nat \<Rightarrow> error + tensor option" where
  \<comment> \<open>line 288\<close>
  "global_slice g g_btc t =
     (case g of
        None \<Rightarrow> Inr None
      | Some _ \<Rightarrow>
          (case g_btc of
             None \<Rightarrow> Inl TypeError
           | Some gb \<Rightarrow> then_do (time_slice t gb) (\<lambda>gt. Inr (Some gt))))"

definition accumulate_skip :: "tensor option \<Rightarrow> tensor \<Rightarrow> error + tensor" where
  \<comment> \<open>line 295\<close>
  "accumulate_skip skips h =
     (case skips of
        None \<Rightarrow> Inr h
      | Some sk \<Rightarrow> then_do (tadd sk h) (\<lambda>a. Inr (tscale a (sqrt 0.5))))"

fun run_conv_layers ::
  "residual_layer list \<Rightarrow> tensor \<Rightarrow> tensor option \<Rightarrow> tensor option \<Rightarrow> tensor option
   \<Rightarrow> residual_layer list \<times> (error + tensor \<times> tensor option)" where
  \<comment> \<open>lines 293-295, on the loop state \<open>(x, skips)\<close>; the layers come back with their buffers\<close>
  "run_conv_layers [] x ct gt skips = ([], Inr (x, skips))"
| "run_conv_layers (f # fs) x ct gt skips =
     (case rl_incremental f (rl_buffer f) x ct gt of
        Inl e \<Rightarrow> (f # fs, Inl e)
      | Inr ((x', h), b) \<Rightarrow>
          (case accumulate_skip skips h of
             Inl e \<Rightarrow> (f\<lparr>rl_buffer := b\<rparr> # fs, Inl e)
           | Inr sk \<Rightarrow>
               (case run_conv_layers fs x' ct gt (Some sk) of
                  (fs', r) \<Rightarrow> (f\<lparr>rl_buffer := b\<rparr> # fs', r))))"

definition head_incremental :: "head_layer \<Rightarrow> tensor \<Rightarrow> head_layer \<times> (error + tensor)" where
  \<comment> \<open>lines 298-301: the incremental form, and the ordinary form on AttributeError\<close>
  "head_incremental f x =
     (case f of
        Stateless h \<Rightarrow> (f, h x)
      | Streaming cv \<Rightarrow>
          (case cv_incremental cv (cv_buffer cv) x of
             Inl AttributeError \<Rightarrow> (f, cv_forward cv x)
           | Inl e \<Rightarrow> (f, Inl e)
           | Inr (y, b) \<Rightarrow> (Streaming (cv\<lparr>cv_buffer := b\<rparr>), Inr y)))"

fun run_head :: "head_layer list \<Rightarrow> tensor \<Rightarrow> head_layer list \<times> (error + tensor)" where
  \<comment> \<open>the loop of lines 297-301 over a list of head layers\<close>
  "run_head [] x = ([], Inr x)"
| "run_head (f # fs) x =
     (case head_incremental f x of
        (f', Inl e) \<Rightarrow> (f' # fs, Inl e)
      | (f', Inr y) \<Rightarrow> (case run_head fs y of (fs', r) \<Rightarrow> (f' # fs', r)))"

definition next_sample ::
  "env \<Rightarrow> net \<Rightarrow> nat \<Rightarrow> bool \<Rightarrow> bool \<Rightarrow> real \<Rightarrow> nat \<Rightarrow> tensor \<Rightarrow> error + tensor" where
  \<comment> \<open>lines 304-313\<close>
  "next_sample ev n B softmax quantize log_scale_min t x =
     (if scalar_input n
      then then_do (view_rows1 B x) (\<lambda>y.
             sample_from_discretized_mix_logistic ev t y log_scale_min)
      else then_do (view_rows B x) (\<lambda>y.
           then_do (if softmax then softmax1 y else Inr y) (\<lambda>p.
             if quantize
             then then_do (random_choice ev t (out_channels n) (flatten p)) (\<lambda>sample.
                    one_hot_column sample p)
             else Inr p)))"

definition apply_head :: "net \<Rightarrow> tensor option \<Rightarrow> net \<times> (error + tensor)" where
  \<comment> \<open>lines 296-301. A skip sum that is still \<^verbatim>\<open>None\<close> (a network without residual
      layers) makes the head raise.\<close>
  "apply_head n skips =
     (case last_conv_layers n of
        None \<Rightarrow> (n, Inl AttributeError)
      | Some hs \<Rightarrow>
          (case skips of
             None \<Rightarrow> (n, Inl (if hs = [] then AttributeError else TypeError))
           | Some x \<Rightarrow>
               (case run_head hs x of
                  (hs', r) \<Rightarrow> (n\<lparr>last_conv_layers := Some hs'\<rparr>, r))))"

definition network_step ::
  "net \<Rightarrow> tensor \<Rightarrow> tensor option \<Rightarrow> tensor option \<Rightarrow> net \<times> (error + tensor)" where
  \<comment> \<open>lines 290-301: the input projection, the residual layers, the head\<close>
  "network_step n current_input ct gt =
     (case cv_incremental (first_conv n) (cv_buffer (first_conv n)) current_input of
        Inl e \<Rightarrow> (n, Inl e)
      | Inr (x, b) \<Rightarrow>
          (let n1 = n\<lparr>first_conv := (first_conv n)\<lparr>cv_buffer := b\<rparr>\<rparr> in
           case run_conv_layers (conv_layers n1) x ct gt None of
             (fs', Inl e) \<Rightarrow> (n1\<lparr>conv_layers := fs'\<rparr>, Inl e)
           | (fs', Inr (x', skips)) \<Rightarrow> apply_head (n1\<lparr>conv_layers := fs'\<rparr>) skips))"

definition generation_step ::
  "env \<Rightarrow> nat \<Rightarrow> tensor option \<Rightarrow> tensor option \<Rightarrow> tensor option \<Rightarrow> tensor option
   \<Rightarrow> bool \<Rightarrow> bool \<Rightarrow> real \<Rightarrow> nat \<Rightarrow> tensor list \<times> tensor \<Rightarrow> net
   \<Rightarrow> net \<times> (error + tensor list \<times> tensor)" where
  \<comment> \<open>lines 280-314, on the loop state \<open>(outputs, current_input)\<close>\<close>
  "generation_step ev B c g g_btc test_inputs softmax quantize log_scale_min t =
     (\<lambda>(outputs, current_input) n.
       case then_do (select_input test_inputs outputs current_input t) (\<lambda>current_input'.
            then_do (local_slice c t) (\<lambda>ct.
            then_do (global_slice g g_btc t) (\<lambda>gt. Inr (current_input', ct, gt)))) of
         Inl e \<Rightarrow> (n, Inl e)
       | Inr (current_input', ct, gt) \<Rightarrow>
           (case network_step n current_input' ct gt of
              (n', Inl e) \<Rightarrow> (n', Inl e)
            | (n', Inr y) \<Rightarrow>
                (case next_sample ev n' B softmax quantize log_scale_min t y of
                   Inl e \<Rightarrow> (n', Inl e)
                 | Inr sample \<Rightarrow> (n', Inr (outputs @ [sample], current_input')))))"

subsection \<open>The whole call\<close>

definition prepare ::
  "env \<Rightarrow> net \<Rightarrow> tensor option \<Rightarrow> tensor option \<Rightarrow> tensor option \<Rightarrow> int option \<Rightarrow> tensor option
   \<Rightarrow> error + nat \<times> int \<times> tensor option \<times> tensor option \<times> tensor option \<times> tensor option \<times> tensor" where
  \<comment> \<open>lines 223-278: \<open>(B, T, test_inputs, g, g_btc, c, initial_input)\<close> as the loop finds them\<close>
  "prepare ev n initial_input c g T test_inputs =
     then_do (resolve_T n T test_inputs) (\<lambda>(B, T', test_inputs').
     then_do (embed_g n B g) (\<lambda>g'.
     then_do (expand_global_features ev B T' g' False) (\<lambda>g_btc.
     then_do (upsample n c T') (\<lambda>c1.
     then_do (local_layout c1 T') (\<lambda>c2.
     then_do (initial_sample n B initial_input) (\<lambda>initial_input'.
       Inr (B, T', test_inputs', g', g_btc, c2, initial_input')))))))"

definition stack_outputs :: "tensor list \<Rightarrow> error + tensor" where
  \<comment> \<open>lines 317-319\<close>
  "stack_outputs outputs =
     then_do (stack outputs) (\<lambda>o1. then_do (transpose 0 1 o1) (transpose 1 2))"

definition generate ::
  "env \<Rightarrow> net \<Rightarrow> tensor option \<Rightarrow> tensor option \<Rightarrow> tensor option \<Rightarrow> int option \<Rightarrow> tensor option
   \<Rightarrow> bool \<Rightarrow> bool \<Rightarrow> real \<Rightarrow> net \<times> (error + tensor)" where
  \<comment> \<open>lines 223-319: the call between its two \<^verbatim>\<open>clear_buffer\<close> calls\<close>
  "generate ev n initial_input c g T test_inputs softmax quantize log_scale_min =
     (case prepare ev n initial_input c g T test_inputs of
        Inl e \<Rightarrow> (n, Inl e)
      | Inr (B, T', test_inputs', g', g_btc, c', initial_input') \<Rightarrow>
          (case for_loop_st [0..<nat T']
                  (generation_step ev B c' g' g_btc test_inputs' softmax quantize log_scale_min)
                  ([], initial_input') n of
             (n', Inl e) \<Rightarrow> (n', Inl e)
           | (n', Inr (outputs, _)) \<Rightarrow> (n', stack_outputs outputs)))"

definition incremental_forward ::
  "env \<Rightarrow> net \<Rightarrow> tensor option \<Rightarrow> tensor option \<Rightarrow> tensor option \<Rightarrow> int option \<Rightarrow> tensor option
   \<Rightarrow> bool \<Rightarrow> bool \<Rightarrow> real \<Rightarrow> net \<times> (error + tensor)" where
  \<comment> \<open>lines 196-322; \<^verbatim>\<open>tqdm\<close> is taken as its default, the identity\<close>
  "incremental_forward ev n initial_input c g T test_inputs softmax quantize log_scale_min =
     (case clear_buffer n of
        (n1, Inl e) \<Rightarrow> (n1, Inl e)
      | (n1, Inr _) \<Rightarrow>
          (case generate ev n1 initial_input c g T test_inputs softmax quantize log_scale_min of
             (n2, Inl e) \<Rightarrow> (n2, Inl e)
           | (n2, Inr outputs) \<Rightarrow>
               (case clear_buffer n2 of
                  (n3, Inl e) \<Rightarrow> (n3, Inl e)
                | (n3, Inr _) \<Rightarrow> (n3, Inr outputs))))"

section \<open>Construction\<close>

text \<open>
  The arguments of \<^verbatim>\<open>__init__\<close>. Python integers are unbounded, and \<^verbatim>\<open>%\<close> and
  \<^verbatim>\<open>//\<close> round towards minus infinity, as \<open>mod\<close> and \<open>div\<close> on \<open>int\<close> do.
\<close>

record config =
  cfg_out_channels :: int
  cfg_layers :: int
  cfg_stacks :: int
  cfg_iaf_layer_size :: "int list"
  cfg_residual_channels :: int
  cfg_gate_channels :: int
  cfg_kernel_size :: int
  cfg_dropout :: real
  cfg_cin_channels :: int
  cfg_gin_channels :: int
  cfg_n_speakers :: "int option"
  cfg_weight_normalization :: bool
  cfg_upsample_conditional_features :: bool
  cfg_upsample_scales :: "int list option"
  cfg_freq_axis_kernel_size :: int
  cfg_scalar_input :: bool
  cfg_is_student :: bool

text \<open>
  The constructors of the imported layer classes, and \<^verbatim>\<open>receptive_field_size\<close>. Each
  call of a layer constructor makes a new object, so a constructor takes, before its
  arguments, the number of layers of its class made so far. For \<^verbatim>\<open>Conv1d1x1\<close> the
  weight normalization flag is \<open>None\<close> where the call leaves it to the default.
\<close>

record ext =
  Conv1d1x1 :: "nat \<Rightarrow> int \<Rightarrow> int \<Rightarrow> bool option \<Rightarrow> conv1d1x1"
  ResidualConv1dGLU ::
    "nat \<Rightarrow> int \<Rightarrow> int \<Rightarrow> int \<Rightarrow> real \<Rightarrow> real \<Rightarrow> int \<Rightarrow> int \<Rightarrow> bool \<Rightarrow> residual_layer"
  Embedding :: "int \<Rightarrow> int \<Rightarrow> tensor \<Rightarrow> error + tensor"
  ConvTranspose2d :: "nat \<Rightarrow> int \<Rightarrow> int \<Rightarrow> int \<Rightarrow> bool \<Rightarrow> tensor \<Rightarrow> error + tensor"
  receptive_field_size :: "int \<Rightarrow> int \<Rightarrow> int \<Rightarrow> int"

definition build_iaf_layer ::
  "ext \<Rightarrow> config \<Rightarrow> int \<Rightarrow> int \<Rightarrow> residual_layer list \<times> nat list
   \<Rightarrow> error + residual_layer list \<times> nat list" where
  \<comment> \<open>lines 88-104 for one \<^verbatim>\<open>layer_size\<close>, on \<open>(conv_layers, iaf_sizes)\<close>;
      \<^verbatim>\<open>layer % layers_per_stack\<close> raises when \<^verbatim>\<open>layers_per_stack\<close> is 0\<close>
  "build_iaf_layer x cfg layers_per_stack layer_size = (\<lambda>(convs, sizes).
     if 0 < layer_size \<and> layers_per_stack = 0 then Inl ZeroDivisionError
     else Inr (convs @ map (\<lambda>layer.
                  ResidualConv1dGLU x (length convs + nat layer)
                    (cfg_residual_channels cfg) (cfg_gate_channels cfg) (cfg_kernel_size cfg)
                    (2 powi (layer mod layers_per_stack)) (cfg_dropout cfg)
                    (cfg_cin_channels cfg) (cfg_gin_channels cfg) (cfg_weight_normalization cfg))
                [0..layer_size - 1],
               sizes @ [nat layer_size]))"

definition build_embedding :: "ext \<Rightarrow> config \<Rightarrow> error + (tensor \<Rightarrow> error + tensor) option" where
  \<comment> \<open>lines 112-116\<close>
  "build_embedding x cfg =
     (if cfg_gin_channels cfg > 0
      then (case cfg_n_speakers cfg of
              None \<Rightarrow> Inl AssertionError
            | Some k \<Rightarrow> Inr (Some (Embedding x k (cfg_gin_channels cfg))))
      else Inr None)"

definition build_upsample ::
  "ext \<Rightarrow> config \<Rightarrow> error + (tensor \<Rightarrow> error + tensor) list option" where
  \<comment> \<open>lines 119-132; iterating over \<^verbatim>\<open>None\<close> raises TypeError\<close>
  "build_upsample x cfg =
     (if cfg_upsample_conditional_features cfg
      then (case cfg_upsample_scales cfg of
              None \<Rightarrow> Inl TypeError
            | Some scales \<Rightarrow>
                Inr (Some (concat (map (\<lambda>(k, s).
                  [ConvTranspose2d x k (cfg_freq_axis_kernel_size cfg) s
                     ((cfg_freq_axis_kernel_size cfg - 1) div 2) (cfg_weight_normalization cfg),
                   relu]) (enumerate 0 scales)))))
      else Inr None)"

definition init :: "ext \<Rightarrow> config \<Rightarrow> error + net" where
  \<comment> \<open>\<^verbatim>\<open>StudentWaveNet.__init__\<close>, lines 57-134. No line assigns \<^verbatim>\<open>last_conv_layers\<close>.\<close>
  "init x cfg =
     (if cfg_stacks cfg = 0 then Inl ZeroDivisionError
      else if cfg_layers cfg mod cfg_stacks cfg \<noteq> 0 then Inl AssertionError
      else
        let layers_per_stack = cfg_layers cfg div cfg_stacks cfg;
            first = (if cfg_scalar_input cfg
                     then Conv1d1x1 x 0 1 (cfg_residual_channels cfg) None
                     else Conv1d1x1 x 0 (cfg_out_channels cfg) (cfg_residual_channels cfg) None)
        in
        then_do (for_loop (cfg_iaf_layer_size cfg) (build_iaf_layer x cfg layers_per_stack) ([], []))
          (\<lambda>(convs, sizes).
        then_do (build_embedding x cfg) (\<lambda>embed.
        then_do (build_upsample x cfg) (\<lambda>ups.
          Inr \<lparr>scalar_input = cfg_scalar_input cfg,
               out_channels = cfg_out_channels cfg,
               cin_channels = cfg_cin_channels cfg,
               is_student = cfg_is_student cfg,
               last_layers = [],
               first_conv = first,
               iaf_sizes = sizes,
               conv_layers = convs,
               last_layer =
                 [Stateless relu,
                  Streaming (Conv1d1x1 x 1 (cfg_residual_channels cfg) (cfg_out_channels cfg)
                               (Some (cfg_weight_normalization cfg)))],
               last_conv_layers = None,
               embed_speakers = embed,
               upsample_conv = ups,
               receptive_field =
                 receptive_field_size x (cfg_layers cfg) (cfg_stacks cfg) (cfg_kernel_size cfg)\<rparr>))))"

definition has_speaker_embedding :: "net \<Rightarrow> bool" where
  "has_speaker_embedding n = (embed_speakers n \<noteq> None)"

definition local_conditioning_enabled :: "net \<Rightarrow> bool" where
  "local_conditioning_enabled n = (cin_channels n > 0)"

section \<open>Removing weight normalization\<close>

text \<open>
  \<^verbatim>\<open>self.apply(fn)\<close> calls \<^verbatim>\<open>fn\<close> on every module below \<^verbatim>\<open>self\<close>, children first,
  then on \<^verbatim>\<open>self\<close>. A module is its address and its children; a layer that two
  module lists hold (the residual layers are in \<^verbatim>\<open>conv_layers\<close> and in a flow step) is
  one address met twice. The store gives each address the parameters that weight
  normalization concerns: none, a plain weight, or the pair \<^verbatim>\<open>weight_g\<close>, \<^verbatim>\<open>weight_v\<close>
  under the hook that recomputes the weight from them.
\<close>

datatype module = Module nat "module list"

datatype parameters =
  NoWeight
  | Weight "real list list"
  | WeightNorm "real list" "real list list"

type_synonym store = "nat \<Rightarrow> parameters"

definition norm_except_dim0 :: "real list \<Rightarrow> real" where
  "norm_except_dim0 row = sqrt (\<Sum>a\<leftarrow>row. a * a)"

definition compute_weight :: "real list \<Rightarrow> real list list \<Rightarrow> real list list" where
  \<comment> \<open>the weight of the hook: \<^verbatim>\<open>v * (g / norm(v))\<close>, one norm for each output channel\<close>
  "compute_weight g v = map2 (\<lambda>gi row. map (\<lambda>a. a * (gi / norm_except_dim0 row)) row) g v"

definition torch_remove_weight_norm :: "nat \<Rightarrow> store \<Rightarrow> error + store" where
  \<comment> \<open>\<^verbatim>\<open>nn.utils.remove_weight_norm(m)\<close>: ValueError when the module has no such hook\<close>
  "torch_remove_weight_norm a st =
     (case st a of
        WeightNorm g v \<Rightarrow> Inr (st(a := Weight (compute_weight g v)))
      | _ \<Rightarrow> Inl ValueError)"

definition remove_weight_norm :: "nat \<Rightarrow> store \<Rightarrow> error + store" where
  \<comment> \<open>lines 335-339\<close>
  "remove_weight_norm a st =
     (case torch_remove_weight_norm a st of
        Inl ValueError \<Rightarrow> Inr st
      | Inl e \<Rightarrow> Inl e
      | Inr st' \<Rightarrow> Inr st')"

lemma for_loop_cong [fundef_cong]:
  "xs = ys \<Longrightarrow> s = s' \<Longrightarrow> (\<And>i t. i \<in> set ys \<Longrightarrow> body i t = body' i t)
   \<Longrightarrow> for_loop xs body s = for_loop ys body' s'"
proof (induction xs arbitrary: ys s s')
  case Nil
  then show ?case by simp
next
  case (Cons x xs)
  then show ?case by (cases ys) (auto split: sum.splits)
qed

fun apply_fn :: "(nat \<Rightarrow> store \<Rightarrow> error + store) \<Rightarrow> module \<Rightarrow> store \<Rightarrow> error + store" where
  \<comment> \<open>\<^verbatim>\<open>nn.Module.apply\<close>\<close>
  "apply_fn fn (Module a children) st = then_do (for_loop children (apply_fn fn) st) (fn a)"

definition make_generation_fast :: "module \<Rightarrow> store \<Rightarrow> error + store" where
  \<comment> \<open>\<^verbatim>\<open>make_generation_fast_\<close>, lines 334-341; the module is \<^verbatim>\<open>self\<close>\<close>
  "make_generation_fast self st = apply_fn remove_weight_norm self st"

section \<open>A small network\<close>

text \<open>
  Concrete layers and surroundings, on which the theorems below are instantiated: a 1x1
  convolution with zero weights and a bias; a residual layer with zero weights, which
  returns its input times \<open>sqrt 0.5\<close> and a constant skip output, and keeps its input in
  its buffer; a random source that always draws the same values; a mixture sampler that
  asserts, as the imported one does, that its input has three channels per mixture.
\<close>

definition toy_conv1x1 :: "nat \<Rightarrow> nat \<Rightarrow> real \<Rightarrow> conv1d1x1" where
  "toy_conv1x1 cin cout bias =
     \<lparr>cv_forward = (\<lambda>x. case size_of x of
                       [b, c, t] \<Rightarrow> if c = cin then Inr (full [b, cout, t] bias) else Inl RuntimeError
                     | _ \<Rightarrow> Inl RuntimeError),
      cv_incremental = (\<lambda>buf x. case size_of x of
                       b # rest \<Rightarrow> if prod_list rest = cin then Inr (full [b, 1, cout] bias, buf)
                                   else Inl RuntimeError
                     | [] \<Rightarrow> Inl RuntimeError),
      cv_buffer = None\<rparr>"

definition toy_residual :: "nat \<Rightarrow> real \<Rightarrow> residual_layer" where
  "toy_residual r bias =
     \<lparr>rl_forward = (\<lambda>x c g. case size_of x of
                       [b, ch, t] \<Rightarrow> if ch = r then Inr (tscale x (sqrt 0.5), full [b, r, t] bias)
                                     else Inl RuntimeError
                     | _ \<Rightarrow> Inl RuntimeError),
      rl_incremental = (\<lambda>buf x ct gt. case size_of x of
                       [b, l, ch] \<Rightarrow> if ch = r \<and> l = 1
                                     then Inr ((tscale x (sqrt 0.5), full [b, 1, r] bias), Some x)
                                     else Inl RuntimeError
                     | _ \<Rightarrow> Inl RuntimeError),
      rl_buffer = None\<rparr>"

definition toy_ext :: ext where
  "toy_ext =
     \<lparr>Conv1d1x1 = (\<lambda>k cin cout wn. toy_conv1x1 (nat cin) (nat cout) 0),
      ResidualConv1dGLU = (\<lambda>k r gate ks dil dr cin gin wn. toy_residual (nat r) 0),
      Embedding = (\<lambda>k gin g. Inl RuntimeError),
      ConvTranspose2d = (\<lambda>k fk s pad wn c. Inl RuntimeError),
      receptive_field_size = (\<lambda>layers stacks ks.
         (ks - 1) * (\<Sum>i\<leftarrow>[0..layers - 1]. 2 ^ nat (i mod (layers div stacks))) + 1)\<rparr>"

definition toy_env :: env where
  "toy_env =
     \<lparr>logistic = (\<lambda>sh idx. 1),
      expand_global_features = (\<lambda>B T g bct. Inr g),
      sample_from_discretized_mix_logistic = (\<lambda>t y lsm. case size_of y of
          [b, c, l] \<Rightarrow> if c mod 3 = 0 then Inr (full [b, l] 0) else Inl AssertionError
        | _ \<Rightarrow> Inl RuntimeError),
      random_choice = (\<lambda>t k p. Inr 0)\<rparr>"

definition toy_config :: "bool \<Rightarrow> int \<Rightarrow> config" where
  "toy_config scalar oc =
     \<lparr>cfg_out_channels = oc, cfg_layers = 2, cfg_stacks = 1, cfg_iaf_layer_size = [1, 1],
      cfg_residual_channels = 2, cfg_gate_channels = 2, cfg_kernel_size = 3,
      cfg_dropout = 0.05, cfg_cin_channels = - 1, cfg_gin_channels = - 1,
      cfg_n_speakers = None, cfg_weight_normalization = True,
      cfg_upsample_conditional_features = False, cfg_upsample_scales = None,
      cfg_freq_axis_kernel_size = 3, cfg_scalar_input = scalar, cfg_is_student = True\<rparr>"

definition toy_net :: "bool \<Rightarrow> int \<Rightarrow> net" where
  \<comment> \<open>the network that \<open>init toy_ext (toy_config scalar oc)\<close> returns\<close>
  "toy_net scalar oc =
     \<lparr>scalar_input = scalar, out_channels = oc, cin_channels = - 1, is_student = True,
      last_layers = [],
      first_conv = toy_conv1x1 (if scalar then 1 else nat oc) 2 0,
      iaf_sizes = [1, 1],
      conv_layers = [toy_residual 2 0, toy_residual 2 0],
      last_layer = [Stateless relu, Streaming (toy_conv1x1 2 (nat oc) 0)],
      last_conv_layers = None,
      embed_speakers = None, upsample_conv = None, receptive_field = 7\<rparr>"

definition toy_net_with_head :: "bool \<Rightarrow> int \<Rightarrow> net" where
  \<comment> \<open>after a caller's \<^verbatim>\<open>net.last_conv_layers = net.last_layer\<close>\<close>
  "toy_net_with_head scalar oc =
     (toy_net scalar oc)\<lparr>last_conv_layers := Some (last_layer (toy_net scalar oc))\<rparr>"

section \<open>Basic facts about the error monad and the loops\<close>

lemma then_do_simps [simp]: "then_do (Inl e) f = Inl e" "then_do (Inr v) f = f v"
  by (simp_all add: then_do_def)

lemma then_do_Inr: "then_do r f = Inr y \<longleftrightarrow> (\<exists>v. r = Inr v \<and> f v = Inr y)"
  by (cases r) simp_all

lemma for_loop_append:
  "for_loop (xs @ ys) body s = then_do (for_loop xs body s) (for_loop ys body)"
  by (induction xs arbitrary: s) (simp_all split: sum.splits)

lemma for_loop_snoc:
  "for_loop (xs @ [x]) body s = then_do (for_loop xs body s) (body x)"
  by (cases "for_loop xs body s") (simp_all add: for_loop_append split: sum.splits)

section \<open>The composition of the flow steps\<close>

text \<open>
  Broadcasting reads an operand at \<open>bidx\<close> of the result index. An operand's size
  fits into the size of the result, and reading through a size that fits changes
  nothing, so the element of a result is a function of the result index alone:
  \<open>reads t F\<close> says which.
\<close>

lemma bdim_refl [simp]: "bdim a a = Some a" by (simp add: bdim_def)

lemma bdim_commute: "bdim a b = bdim b a" by (auto simp: bdim_def)

lemma bdim_fits: "bdim a b = Some d \<Longrightarrow> bdim a d = Some d \<and> bdim b d = Some d"
  by (auto simp: bdim_def split: if_splits)

lemma bshape_rev_refl [simp]: "bshape_rev a a = Some a"
  by (induction a) simp_all

lemma bshape_rev_Nil2 [simp]: "bshape_rev a [] = Some a"
  by (cases a) simp_all

lemma bshape_rev_commute: "bshape_rev a b = bshape_rev b a"
  by (induction a b rule: bshape_rev.induct) (auto simp: bdim_commute split: option.splits)

lemma bshape_rev_fits:
  "bshape_rev a b = Some c \<Longrightarrow> bshape_rev a c = Some c \<and> bshape_rev b c = Some c"
proof (induction a b arbitrary: c rule: bshape_rev.induct)
  case (3 a as b bs)
  then show ?case by (auto split: option.splits dest: bdim_fits)
qed auto

lemma bshape_rev_length: "bshape_rev a b = Some c \<Longrightarrow> length c = max (length a) (length b)"
  by (induction a b arbitrary: c rule: bshape_rev.induct) (auto split: option.splits)

lemma bidx_rev_comp:
  "bshape_rev a c = Some c \<Longrightarrow> length c \<le> length i \<Longrightarrow>
   map2 (\<lambda>d i. if d = 1 then 0 else i) a (map2 (\<lambda>d i. if d = 1 then 0 else i) c i)
   = map2 (\<lambda>d i. if d = (1::nat) then 0 else i) a (i::nat list)"
proof (induction a c arbitrary: i rule: bshape_rev.induct)
  case (3 a as b bs)
  then obtain i0 ir where i: "i = i0 # ir" by (cases i) auto
  from 3 show ?case unfolding i
    by (auto simp: bdim_def split: option.splits if_splits)
qed auto

lemma bidx_comp:
  assumes "broadcast_shape a c = Some c" "length c \<le> length idx"
  shows "bidx a (bidx c idx) = bidx a idx"
proof -
  from assms(1) have "bshape_rev (rev a) (rev c) = Some (rev c)"
    by (auto simp: broadcast_shape_def rev_swap)
  from bidx_rev_comp[OF this, of "rev idx"] assms(2) show ?thesis
    by (simp add: bidx_def)
qed

lemma broadcast_shape_fits:
  "broadcast_shape a b = Some c \<Longrightarrow> broadcast_shape a c = Some c \<and> broadcast_shape b c = Some c"
  using bshape_rev_fits[of "rev a" "rev b" "rev c"]
  by (auto simp: broadcast_shape_def rev_swap)

lemma broadcast_shape_length:
  "broadcast_shape a b = Some c \<Longrightarrow> length c = max (length a) (length b)"
  using bshape_rev_length[of "rev a" "rev b" "rev c"]
  by (auto simp: broadcast_shape_def rev_swap)

lemma broadcast_shape_refl [simp]: "broadcast_shape a a = Some a"
  by (simp add: broadcast_shape_def)

lemma broadcast_shape_commute: "broadcast_shape a b = broadcast_shape b a"
  by (simp add: broadcast_shape_def bshape_rev_commute)

lemma bidx_valid: "valid_index sh idx \<Longrightarrow> bidx sh idx = idx"
proof -
  assume "valid_index sh idx"
  then have "list_all2 (\<lambda>i d. i < d) (rev idx) (rev sh)" by (simp add: valid_index_def)
  then have "map2 (\<lambda>d i. if d = 1 then 0 else i) (rev sh) (rev idx) = rev idx"
    by (induction rule: list_all2_induct) auto
  then show ?thesis by (simp add: bidx_def)
qed

definition reads :: "tensor \<Rightarrow> (nat list \<Rightarrow> real) \<Rightarrow> bool" where
  "reads t F = (\<forall>idx. length (size_of t) \<le> length idx \<longrightarrow> elt t (bidx (size_of t) idx) = F idx)"

lemma reads_full: "reads (full sh v) (\<lambda>_. v)"
  by (simp add: reads_def full_def)

lemma reads_self: "reads t (\<lambda>idx. elt t (bidx (size_of t) idx))"
  by (simp add: reads_def)

lemma bop_reads:
  assumes "bop f a b = Inr t" "reads a Fa" "reads b Fb"
  shows "reads t (\<lambda>idx. f (Fa idx) (Fb idx))"
proof -
  from assms(1) obtain c where c: "broadcast_shape (size_of a) (size_of b) = Some c"
    and t: "t = \<lparr>size_of = c, elt = (\<lambda>idx. f (elt a (bidx (size_of a) idx)) (elt b (bidx (size_of b) idx)))\<rparr>"
    by (auto simp: bop_def split: option.splits)
  note fa = broadcast_shape_fits[OF c] and len = broadcast_shape_length[OF c]
  show ?thesis unfolding reads_def
  proof (intro allI impI)
    fix idx :: "nat list" assume "length (size_of t) \<le> length idx"
    then have l: "length c \<le> length idx" by (simp add: t)
    have "elt t (bidx (size_of t) idx) = f (elt a (bidx (size_of a) (bidx c idx))) (elt b (bidx (size_of b) (bidx c idx)))"
      by (simp add: t)
    also have "\<dots> = f (elt a (bidx (size_of a) idx)) (elt b (bidx (size_of b) idx))"
      using fa l by (simp add: bidx_comp)
    also have "\<dots> = f (Fa idx) (Fb idx)"
      using assms(2,3) l len by (simp add: reads_def)
    finally show "elt t (bidx (size_of t) idx) = f (Fa idx) (Fb idx)" .
  qed
qed

lemma inner_reads:
  "for_loop [a..<k] (\<lambda>j ss. tmul ss (s ! j)) (full zsize 1) = Inr ss \<Longrightarrow>
   reads ss (\<lambda>idx. \<Prod>j\<in>{a..<k}. elt (s ! j) (bidx (size_of (s ! j)) idx))"
proof (induction k arbitrary: ss)
  case 0
  then show ?case by (auto simp: reads_full)
next
  case (Suc k)
  show ?case
  proof (cases "a \<le> k")
    case False
    with Suc.prems show ?thesis by (auto simp: reads_full)
  next
    case True
    with Suc.prems obtain ss0 where
      ss0: "for_loop [a..<k] (\<lambda>j ss. tmul ss (s ! j)) (full zsize 1) = Inr ss0"
      and ss: "tmul ss0 (s ! k) = Inr ss"
      by (auto simp: for_loop_snoc then_do_Inr)
    from bop_reads[OF ss[unfolded tmul_def] Suc.IH[OF ss0] reads_self] True
    show ?thesis by (simp add: prod.atLeastLessThan_Suc mult.commute)
  qed
qed

lemma outer_reads:
  "for_loop [0..<k] (compose_step zsize s m) (full sh0 0, full sh0 1) = Inr (mu, sc) \<Longrightarrow>
   reads mu (\<lambda>idx. \<Sum>i<k. elt (m ! i) (bidx (size_of (m ! i)) idx)
                         * (\<Prod>j\<in>{Suc i..<length s}. elt (s ! j) (bidx (size_of (s ! j)) idx)))
   \<and> reads sc (\<lambda>idx. \<Prod>i<k. elt (s ! i) (bidx (size_of (s ! i)) idx))"
proof (induction k arbitrary: mu sc)
  case 0
  then show ?case by (auto simp: reads_full)
next
  case (Suc k)
  from Suc.prems obtain mu0 sc0 where
    prev: "for_loop [0..<k] (compose_step zsize s m) (full sh0 0, full sh0 1) = Inr (mu0, sc0)"
    and step: "compose_step zsize s m k (mu0, sc0) = Inr (mu, sc)"
    by (auto simp: for_loop_snoc then_do_Inr)
  from step obtain ss mss where
    ss: "for_loop [k + 1..<length s] (\<lambda>j ss. tmul ss (s ! j)) (full zsize 1) = Inr ss"
    and mss: "tmul (m ! k) ss = Inr mss"
    and mu: "tadd mu0 mss = Inr mu"
    and sc: "tmul sc0 (s ! k) = Inr sc"
    by (auto simp: compose_step_def then_do_Inr split: if_splits)
  note IH = Suc.IH[OF prev]
  have eq: "k + 1 = Suc k" by simp
  note r1 = inner_reads[OF ss, unfolded eq]
  note r2 = bop_reads[OF mss[unfolded tmul_def] reads_self r1]
  note r3 = bop_reads[OF mu[unfolded tadd_def] conjunct1[OF IH] r2]
  note r4 = bop_reads[OF sc[unfolded tmul_def] conjunct2[OF IH] reads_self]
  from r3 r4 show ?case by (simp add: lessThan_Suc mult.commute add.commute)
qed

lemma reads_valid:
  assumes "reads t F" "valid_index (size_of t) idx"
  shows "elt t idx = F idx"
proof -
  from assms(2) have "length (size_of t) \<le> length idx"
    by (auto simp: valid_index_def dest: list_all2_lengthD)
  with assms(1) have "elt t (bidx (size_of t) idx) = F idx" by (simp add: reads_def)
  with bidx_valid[OF assms(2)] show ?thesis by simp
qed

lemma bop_size: "bop f a b = Inr t \<Longrightarrow> broadcast_shape (size_of a) (size_of b) = Some (size_of t)"
  by (auto simp: bop_def split: option.splits)

lemma bop_total:
  "broadcast_shape (size_of a) (size_of b) = Some c \<Longrightarrow> \<exists>t. bop f a b = Inr t \<and> size_of t = c"
  by (simp add: bop_def)

lemma inner_total:
  assumes "\<forall>j<length s. broadcast_shape zsize (size_of (s ! j)) = Some zsize" "k \<le> length s"
  shows "\<exists>ss. for_loop [a..<k] (\<lambda>j ss. tmul ss (s ! j)) (full zsize 1) = Inr ss \<and> size_of ss = zsize"
  using assms(2)
proof (induction k)
  case 0
  then show ?case by (simp add: full_def)
next
  case (Suc k)
  show ?case
  proof (cases "a \<le> k")
    case False
    then show ?thesis by (simp add: full_def)
  next
    case True
    from Suc obtain ss0 where
      ss0: "for_loop [a..<k] (\<lambda>j ss. tmul ss (s ! j)) (full zsize 1) = Inr ss0" "size_of ss0 = zsize"
      by auto
    from assms(1) Suc.prems have "broadcast_shape (size_of ss0) (size_of (s ! k)) = Some zsize"
      by (simp add: ss0)
    from bop_total[OF this] obtain ss where "tmul ss0 (s ! k) = Inr ss" "size_of ss = zsize"
      unfolding tmul_def by blast
    with ss0 True show ?thesis by (simp add: for_loop_snoc)
  qed
qed

lemma compose_step_total:
  assumes s: "\<forall>j<length s. broadcast_shape zsize (size_of (s ! j)) = Some zsize"
    and m: "\<forall>j<length m. broadcast_shape zsize (size_of (m ! j)) = Some zsize"
    and len: "length m = length s" and i: "i < length s"
    and sz: "size_of mu0 = zsize" "size_of sc0 = zsize"
  shows "\<exists>mu sc. compose_step zsize s m i (mu0, sc0) = Inr (mu, sc)
           \<and> size_of mu = zsize \<and> size_of sc = zsize"
proof -
  from inner_total[OF s, of "length s" "i + 1"] obtain ss where
    ss: "for_loop [i + 1..<length s] (\<lambda>j ss. tmul ss (s ! j)) (full zsize 1) = Inr ss"
      "size_of ss = zsize" by auto
  from m i len have "broadcast_shape (size_of (m ! i)) (size_of ss) = Some zsize"
    by (simp add: ss broadcast_shape_commute)
  from bop_total[OF this] obtain mss where mss: "tmul (m ! i) ss = Inr mss" "size_of mss = zsize"
    unfolding tmul_def by blast
  have "broadcast_shape (size_of mu0) (size_of mss) = Some zsize"
    by (simp add: sz mss broadcast_shape_def)
  from bop_total[OF this] obtain mu where mu: "tadd mu0 mss = Inr mu" "size_of mu = zsize"
    unfolding tadd_def by blast
  from s i have "broadcast_shape (size_of sc0) (size_of (s ! i)) = Some zsize"
    by (simp add: sz)
  from bop_total[OF this] obtain sc where sc: "tmul sc0 (s ! i) = Inr sc" "size_of sc = zsize"
    unfolding tmul_def by blast
  from ss mss mu sc i len show ?thesis by (simp add: compose_step_def)
qed

lemma compose_total_returns:
  assumes s: "\<forall>j<length s. broadcast_shape zsize (size_of (s ! j)) = Some zsize"
    and m: "\<forall>j<length m. broadcast_shape zsize (size_of (m ! j)) = Some zsize"
    and len: "length m = length s"
    and sz: "size_of mu0 = zsize" "size_of sc0 = zsize"
  shows "\<exists>mu sc. compose_total zsize s m mu0 sc0 = Inr (mu, sc)
           \<and> size_of mu = zsize \<and> size_of sc = zsize"
proof -
  have "k \<le> length s \<Longrightarrow>
        \<exists>mu sc. for_loop [0..<k] (compose_step zsize s m) (mu0, sc0) = Inr (mu, sc)
           \<and> size_of mu = zsize \<and> size_of sc = zsize" for k
  proof (induction k)
    case 0
    then show ?case by (simp add: sz)
  next
    case (Suc k)
    then obtain mu sc where
      prev: "for_loop [0..<k] (compose_step zsize s m) (mu0, sc0) = Inr (mu, sc)"
        "size_of mu = zsize" "size_of sc = zsize" by auto
    from Suc.prems have "k < length s" by simp
    from compose_step_total[OF s m len this prev(2,3)] prev(1)
    show ?case by (simp add: for_loop_snoc)
  qed
  then show ?thesis by (simp add: compose_total_def)
qed

text \<open>
  Claim C1. The second loop of \<^verbatim>\<open>forward\<close> (lines 188-194) starts from a shift of
  zeros and a scale of ones. Whenever it returns, every element of the returned scale
  is the product over all steps \<open>i\<close> of the recorded scale \<open>s ! i\<close>, and every element of
  the returned shift is the sum over the steps \<open>i\<close> of the recorded shift \<open>m ! i\<close> times the
  product of the scales \<open>s ! j\<close> of the later steps \<open>j > i\<close>; a recorded tensor is read
  under broadcasting. This holds for any number of steps. And the loop does return, with
  totals of the size of \<open>z\<close>, when a shift and a scale were recorded for every step and
  each of them broadcasts into the size of \<open>z\<close>.
\<close>

theorem compose_total_closed_form:
  "(length m = length s
      \<and> (\<forall>j<length s. broadcast_shape zsize (size_of (s ! j)) = Some zsize
                      \<and> broadcast_shape zsize (size_of (m ! j)) = Some zsize)
     \<longrightarrow> (\<exists>mu_tot scale_tot.
            compose_total zsize s m (full zsize 0) (full zsize 1) = Inr (mu_tot, scale_tot)
            \<and> size_of mu_tot = zsize \<and> size_of scale_tot = zsize))
   \<and> (\<forall>mu_tot scale_tot idx.
        compose_total zsize s m (full sh0 0) (full sh0 1) = Inr (mu_tot, scale_tot) \<longrightarrow>
          (valid_index (size_of scale_tot) idx \<longrightarrow>
             elt scale_tot idx = (\<Prod>i<length s. elt (s ! i) (bidx (size_of (s ! i)) idx)))
        \<and> (valid_index (size_of mu_tot) idx \<longrightarrow>
             elt mu_tot idx =
               (\<Sum>i<length s. elt (m ! i) (bidx (size_of (m ! i)) idx)
                   * (\<Prod>j\<in>{Suc i..<length s}. elt (s ! j) (bidx (size_of (s ! j)) idx)))))"
proof (intro conjI impI allI)
  assume a: "length m = length s
      \<and> (\<forall>j<length s. broadcast_shape zsize (size_of (s ! j)) = Some zsize
                      \<and> broadcast_shape zsize (size_of (m ! j)) = Some zsize)"
  show "\<exists>mu_tot scale_tot.
            compose_total zsize s m (full zsize 0) (full zsize 1) = Inr (mu_tot, scale_tot)
            \<and> size_of mu_tot = zsize \<and> size_of scale_tot = zsize"
    by (rule compose_total_returns) (use a in \<open>simp_all add: full_def\<close>)
next
  fix mu_tot scale_tot idx
  assume r: "compose_total zsize s m (full sh0 0) (full sh0 1) = Inr (mu_tot, scale_tot)"
  note rd = outer_reads[OF r[unfolded compose_total_def]]
  { assume "valid_index (size_of scale_tot) idx"
    with rd show "elt scale_tot idx = (\<Prod>i<length s. elt (s ! i) (bidx (size_of (s ! i)) idx))"
      by (auto dest: reads_valid) }
  { assume "valid_index (size_of mu_tot) idx"
    with rd show "elt mu_tot idx =
               (\<Sum>i<length s. elt (m ! i) (bidx (size_of (m ! i)) idx)
                   * (\<Prod>j\<in>{Suc i..<length s}. elt (s ! j) (bidx (size_of (s ! j)) idx)))"
      by (auto dest: reads_valid) }
qed

theorem compose_total_closed_form_witness:
  "\<exists>mu_tot scale_tot.
     compose_total [1, 1, 2] [full [1, 1, 2] 2, full [1, 1, 2] 3, full [1, 1, 2] 5]
        [full [1, 1, 2] 7, full [1, 1, 2] 11, full [1, 1, 2] 13]
        (full [1, 1, 2] 0) (full [1, 1, 2] 1) = Inr (mu_tot, scale_tot)
     \<and> size_of mu_tot = [1, 1, 2] \<and> size_of scale_tot = [1, 1, 2]
     \<and> elt scale_tot [0, 0, 1] = 2 * 3 * 5 \<and> elt mu_tot [0, 0, 1] = 7 * (3 * 5) + 11 * 5 + 13"
proof -
  let ?s = "[full [1, 1, 2] 2, full [1, 1, 2] 3, full [1, 1, 2] 5]"
  let ?m = "[full [1, 1, 2] 7, full [1, 1, 2] 11, full [1, 1, 2] 13]"
  note inst = compose_total_closed_form[of "?m" "?s" "[1, 1, 2]" "[1, 1, 2]"]
  have fit: "length ?m = length ?s
      \<and> (\<forall>j<length ?s. broadcast_shape [1, 1, 2] (size_of (?s ! j)) = Some [1, 1, 2]
                      \<and> broadcast_shape [1, 1, 2] (size_of (?m ! j)) = Some [1, 1, 2])"
    by (simp add: full_def nth_Cons')
  from conjunct1[OF inst, THEN mp, OF fit] obtain mu sc where
    run: "compose_total [1, 1, 2] ?s ?m (full [1, 1, 2] 0) (full [1, 1, 2] 1) = Inr (mu, sc)"
    and sz: "size_of mu = [1, 1, 2]" "size_of sc = [1, 1, 2]"
    by blast
  have v: "valid_index (size_of sc) [0, 0, 1]" "valid_index (size_of mu) [0, 0, 1]"
    by (simp_all add: valid_index_def sz)
  note eqs = conjunct2[OF inst, THEN spec, THEN spec, THEN spec, THEN mp, OF run, of "[0, 0, 1]"]
  note e1 = conjunct1[OF eqs, THEN mp, OF v(1)] and e2 = conjunct2[OF eqs, THEN mp, OF v(2)]
  have "elt sc [0, 0, 1] = 2 * 3 * 5"
    unfolding e1 by (simp add: full_def lessThan_Suc)
  moreover have "elt mu [0, 0, 1] = 7 * (3 * 5) + 11 * 5 + 13"
    unfolding e2 by (simp add: full_def lessThan_Suc atLeastLessThanSuc)
  ultimately show ?thesis using run sz by blast
qed

section \<open>Construction contracts\<close>

lemma build_iaf_layers_error:
  "for_loop ls (build_iaf_layer x cfg lps) st = Inl e \<Longrightarrow> e = ZeroDivisionError"
proof (induction ls arbitrary: st)
  case Nil
  then show ?case by simp
next
  case (Cons l ls)
  then show ?case
    by (cases st) (auto simp: build_iaf_layer_def split: if_splits sum.splits)
qed

lemma build_iaf_layers_returns:
  "lps \<noteq> 0 \<Longrightarrow> \<exists>r. for_loop ls (build_iaf_layer x cfg lps) st = Inr r"
proof (induction ls arbitrary: st)
  case Nil
  then show ?case by simp
next
  case (Cons l ls)
  then show ?case
    by (cases st) (simp add: build_iaf_layer_def)
qed

lemma init_error_kinds:
  "init x cfg = Inl e \<Longrightarrow> e = AssertionError \<or> e = ZeroDivisionError \<or> e = TypeError"
  by (auto simp: init_def Let_def then_do_def build_embedding_def build_upsample_def
      split: if_splits sum.splits option.splits prod.splits dest: build_iaf_layers_error)

text \<open>
  Claim C5. Construction raises, and so returns no network, when \<^verbatim>\<open>layers\<close> is not
  a multiple of \<^verbatim>\<open>stacks\<close> (the assertion of line 79; when \<^verbatim>\<open>stacks\<close> is 0 the
  remainder itself raises ZeroDivisionError), and when \<^verbatim>\<open>gin_channels\<close> is positive and
  no speaker count is given (the assertion of line 113, unless an earlier line has raised
  already). When both contracts hold, no assertion fails; construction then returns a
  network unless \<^verbatim>\<open>layers\<close> is 0 or upsampling is asked for without a list of scales.
\<close>

theorem init_contracts:
  "(cfg_stacks cfg \<noteq> 0 \<and> cfg_layers cfg mod cfg_stacks cfg \<noteq> 0
      \<longrightarrow> init x cfg = Inl AssertionError)
   \<and> (cfg_stacks cfg = 0 \<longrightarrow> init x cfg = Inl ZeroDivisionError)
   \<and> (cfg_gin_channels cfg > 0 \<and> cfg_n_speakers cfg = None
      \<longrightarrow> init x cfg = Inl AssertionError \<or> init x cfg = Inl ZeroDivisionError)
   \<and> (cfg_stacks cfg \<noteq> 0 \<and> cfg_layers cfg mod cfg_stacks cfg = 0
       \<and> (cfg_gin_channels cfg > 0 \<longrightarrow> cfg_n_speakers cfg \<noteq> None)
      \<longrightarrow> init x cfg \<noteq> Inl AssertionError
          \<and> (cfg_layers cfg \<noteq> 0
               \<and> (cfg_upsample_conditional_features cfg \<longrightarrow> cfg_upsample_scales cfg \<noteq> None)
              \<longrightarrow> (\<exists>n. init x cfg = Inr n)))"
proof (intro conjI impI)
  assume "cfg_stacks cfg \<noteq> 0 \<and> cfg_layers cfg mod cfg_stacks cfg \<noteq> 0"
  then show "init x cfg = Inl AssertionError" by (simp add: init_def)
next
  assume "cfg_stacks cfg = 0"
  then show "init x cfg = Inl ZeroDivisionError" by (simp add: init_def)
next
  assume a: "cfg_gin_channels cfg > 0 \<and> cfg_n_speakers cfg = None"
  then have emb: "build_embedding x cfg = Inl AssertionError"
    by (simp add: build_embedding_def)
  show "init x cfg = Inl AssertionError \<or> init x cfg = Inl ZeroDivisionError"
  proof (cases "cfg_stacks cfg = 0 \<or> cfg_layers cfg mod cfg_stacks cfg \<noteq> 0")
    case True
    then show ?thesis by (auto simp: init_def)
  next
    case False
    show ?thesis
    proof (cases "for_loop (cfg_iaf_layer_size cfg)
                    (build_iaf_layer x cfg (cfg_layers cfg div cfg_stacks cfg)) ([], [])")
      case (Inl e)
      with build_iaf_layers_error[OF Inl] False show ?thesis
        by (simp add: init_def Let_def)
    next
      case (Inr r)
      with False emb show ?thesis
        by (cases r) (simp add: init_def Let_def)
    qed
  qed
next
  assume a: "cfg_stacks cfg \<noteq> 0 \<and> cfg_layers cfg mod cfg_stacks cfg = 0
       \<and> (cfg_gin_channels cfg > 0 \<longrightarrow> cfg_n_speakers cfg \<noteq> None)"
  then have emb: "\<exists>em. build_embedding x cfg = Inr em"
    by (auto simp: build_embedding_def)
  have noassert: "for_loop (cfg_iaf_layer_size cfg)
                    (build_iaf_layer x cfg (cfg_layers cfg div cfg_stacks cfg)) ([], [])
                  \<noteq> Inl AssertionError"
    using build_iaf_layers_error by fastforce
  show "init x cfg \<noteq> Inl AssertionError"
    using a emb noassert
    by (auto simp: init_def Let_def then_do_def build_upsample_def
        split: sum.splits option.splits prod.splits)
next
  assume a: "cfg_stacks cfg \<noteq> 0 \<and> cfg_layers cfg mod cfg_stacks cfg = 0
       \<and> (cfg_gin_channels cfg > 0 \<longrightarrow> cfg_n_speakers cfg \<noteq> None)"
    and b: "cfg_layers cfg \<noteq> 0
               \<and> (cfg_upsample_conditional_features cfg \<longrightarrow> cfg_upsample_scales cfg \<noteq> None)"
  from a have emb: "\<exists>em. build_embedding x cfg = Inr em"
    by (auto simp: build_embedding_def)
  from b have ups: "\<exists>u. build_upsample x cfg = Inr u"
    by (auto simp: build_upsample_def)
  from a b have "cfg_layers cfg div cfg_stacks cfg \<noteq> 0"
    by (metis div_mult_mod_eq add.right_neutral mult_zero_left)
  from build_iaf_layers_returns[OF this] obtain r where
    "for_loop (cfg_iaf_layer_size cfg)
        (build_iaf_layer x cfg (cfg_layers cfg div cfg_stacks cfg)) ([], []) = Inr r"
    by blast
  with a emb ups show "\<exists>n. init x cfg = Inr n"
    by (cases r) (auto simp: init_def Let_def)
qed

theorem init_contracts_witness:
  "init toy_ext ((toy_config True 2)\<lparr>cfg_layers := 3, cfg_stacks := 2\<rparr>) = Inl AssertionError
   \<and> init toy_ext ((toy_config True 2)\<lparr>cfg_stacks := 0\<rparr>) = Inl ZeroDivisionError
   \<and> init toy_ext ((toy_config True 2)\<lparr>cfg_gin_channels := 4\<rparr>) = Inl AssertionError
   \<and> init toy_ext (toy_config True 2) \<noteq> Inl AssertionError
   \<and> (\<exists>n. init toy_ext (toy_config True 2) = Inr n)"
proof -
  note a = init_contracts[of "(toy_config True 2)\<lparr>cfg_layers := 3, cfg_stacks := 2\<rparr>" toy_ext]
  note b = init_contracts[of "(toy_config True 2)\<lparr>cfg_stacks := 0\<rparr>" toy_ext]
  note c = init_contracts[of "(toy_config True 2)\<lparr>cfg_gin_channels := 4\<rparr>" toy_ext]
  note d = init_contracts[of "toy_config True 2" toy_ext]
  have 1: "init toy_ext ((toy_config True 2)\<lparr>cfg_layers := 3, cfg_stacks := 2\<rparr>) = Inl AssertionError"
    using a by (simp add: toy_config_def)
  have 2: "init toy_ext ((toy_config True 2)\<lparr>cfg_stacks := 0\<rparr>) = Inl ZeroDivisionError"
    using b by (simp add: toy_config_def)
  have "init toy_ext ((toy_config True 2)\<lparr>cfg_gin_channels := 4\<rparr>) = Inl AssertionError
        \<or> init toy_ext ((toy_config True 2)\<lparr>cfg_gin_channels := 4\<rparr>) = Inl ZeroDivisionError"
    using c by (simp add: toy_config_def)
  moreover have "init toy_ext ((toy_config True 2)\<lparr>cfg_gin_channels := 4\<rparr>) \<noteq> Inl ZeroDivisionError"
    by (simp add: init_def toy_config_def toy_ext_def build_iaf_layer_def
        build_embedding_def build_upsample_def upto.simps)
  ultimately have 3: "init toy_ext ((toy_config True 2)\<lparr>cfg_gin_channels := 4\<rparr>) = Inl AssertionError"
    by blast
  have 4: "init toy_ext (toy_config True 2) \<noteq> Inl AssertionError
           \<and> (\<exists>n. init toy_ext (toy_config True 2) = Inr n)"
    using d by (simp add: toy_config_def)
  from 1 2 3 4 show ?thesis by blast
qed

section \<open>The accumulation of the skip outputs\<close>

lemma run_conv_layers_snoc:
  "run_conv_layers (fs @ [f]) x ct gt skips =
     (case run_conv_layers fs x ct gt skips of
        (fs', Inl e) \<Rightarrow> (fs' @ [f], Inl e)
      | (fs', Inr (x', acc)) \<Rightarrow>
          (case rl_incremental f (rl_buffer f) x' ct gt of
             Inl e \<Rightarrow> (fs' @ [f], Inl e)
           | Inr ((x'', h), b) \<Rightarrow>
               (fs' @ [f\<lparr>rl_buffer := b\<rparr>],
                then_do (accumulate_skip acc h) (\<lambda>sk. Inr (x'', Some sk)))))"
proof (induction fs arbitrary: x skips)
  case Nil
  show ?case by (auto split: sum.splits prod.splits)
next
  case (Cons g gs)
  show ?case
    by (auto simp: Cons split: sum.splits prod.splits)
qed

lemma accumulate_skip_elt:
  assumes "broadcast_shape (size_of acc) (size_of h) = Some sh"
  shows "\<exists>sk. accumulate_skip (Some acc) h = Inr sk \<and> size_of sk = sh
          \<and> (\<forall>idx. elt sk idx
                 = (elt acc (bidx (size_of acc) idx) + elt h (bidx (size_of h) idx)) * sqrt 0.5)"
  using assms by (simp add: accumulate_skip_def tadd_def bop_def tscale_def)

text \<open>
  Claim C6. In a time step the skip output of the first residual layer becomes the
  accumulator, and the skip output \<open>h\<close> of every later layer is combined with the
  accumulator \<open>acc\<close> of the layers before it as \<open>(acc + h) * sqrt 0.5\<close> (line 295). For
  two layers whose skip outputs \<open>h1\<close> and \<open>h2\<close> have one size, every element of the
  result is \<open>(h1 + h2) * sqrt 0.5\<close>, which differs from \<open>h1 + h2\<close> wherever that sum is
  not zero.
\<close>

theorem skip_accumulation_rule:
  "accumulate_skip None h = Inr h
   \<and> accumulate_skip (Some acc) h = then_do (tadd acc h) (\<lambda>a. Inr (tscale a (sqrt 0.5)))
   \<and> run_conv_layers (fs @ [f]) x ct gt skips =
       (case run_conv_layers fs x ct gt skips of
          (fs', Inl e) \<Rightarrow> (fs' @ [f], Inl e)
        | (fs', Inr (x', acc)) \<Rightarrow>
            (case rl_incremental f (rl_buffer f) x' ct gt of
               Inl e \<Rightarrow> (fs' @ [f], Inl e)
             | Inr ((x'', h), b) \<Rightarrow>
                 (fs' @ [f\<lparr>rl_buffer := b\<rparr>],
                  then_do (accumulate_skip acc h) (\<lambda>sk. Inr (x'', Some sk)))))
   \<and> (rl_incremental f1 (rl_buffer f1) x ct gt = Inr ((x1, h1), b1)
       \<and> rl_incremental f2 (rl_buffer f2) x1 ct gt = Inr ((x2, h2), b2)
       \<and> size_of h1 = size_of h2
      \<longrightarrow> (\<exists>sk. run_conv_layers [f1, f2] x ct gt None
                  = ([f1\<lparr>rl_buffer := b1\<rparr>, f2\<lparr>rl_buffer := b2\<rparr>], Inr (x2, Some sk))
               \<and> size_of sk = size_of h1
               \<and> (\<forall>idx. valid_index (size_of h1) idx \<longrightarrow>
                     elt sk idx = (elt h1 idx + elt h2 idx) * sqrt 0.5
                     \<and> (elt h1 idx + elt h2 idx \<noteq> 0 \<longrightarrow> elt sk idx \<noteq> elt h1 idx + elt h2 idx))))"
proof (intro conjI impI)
  show "accumulate_skip None h = Inr h" by (simp add: accumulate_skip_def)
  show "accumulate_skip (Some acc) h = then_do (tadd acc h) (\<lambda>a. Inr (tscale a (sqrt 0.5)))"
    by (simp add: accumulate_skip_def)
  show "run_conv_layers (fs @ [f]) x ct gt skips =
       (case run_conv_layers fs x ct gt skips of
          (fs', Inl e) \<Rightarrow> (fs' @ [f], Inl e)
        | (fs', Inr (x', acc)) \<Rightarrow>
            (case rl_incremental f (rl_buffer f) x' ct gt of
               Inl e \<Rightarrow> (fs' @ [f], Inl e)
             | Inr ((x'', h), b) \<Rightarrow>
                 (fs' @ [f\<lparr>rl_buffer := b\<rparr>],
                  then_do (accumulate_skip acc h) (\<lambda>sk. Inr (x'', Some sk)))))"
    by (rule run_conv_layers_snoc)
next
  assume a: "rl_incremental f1 (rl_buffer f1) x ct gt = Inr ((x1, h1), b1)
       \<and> rl_incremental f2 (rl_buffer f2) x1 ct gt = Inr ((x2, h2), b2)
       \<and> size_of h1 = size_of h2"
  then have "broadcast_shape (size_of h1) (size_of h2) = Some (size_of h1)" by simp
  from accumulate_skip_elt[OF this] obtain sk where
    sk: "accumulate_skip (Some h1) h2 = Inr sk" "size_of sk = size_of h1"
      "\<forall>idx. elt sk idx
           = (elt h1 (bidx (size_of h1) idx) + elt h2 (bidx (size_of h2) idx)) * sqrt 0.5"
    by blast
  have ne: "sqrt 0.5 \<noteq> (1::real)" by simp
  have "\<forall>idx. valid_index (size_of h1) idx \<longrightarrow>
          elt sk idx = (elt h1 idx + elt h2 idx) * sqrt 0.5
          \<and> (elt h1 idx + elt h2 idx \<noteq> 0 \<longrightarrow> elt sk idx \<noteq> elt h1 idx + elt h2 idx)"
  proof (intro allI impI)
    fix idx assume v: "valid_index (size_of h1) idx"
    with a have "bidx (size_of h1) idx = idx" "bidx (size_of h2) idx = idx"
      by (simp_all add: bidx_valid)
    with sk(3) have e: "elt sk idx = (elt h1 idx + elt h2 idx) * sqrt 0.5" by simp
    show "elt sk idx = (elt h1 idx + elt h2 idx) * sqrt 0.5
          \<and> (elt h1 idx + elt h2 idx \<noteq> 0 \<longrightarrow> elt sk idx \<noteq> elt h1 idx + elt h2 idx)"
      using e ne by simp
  qed
  moreover have "run_conv_layers [f1, f2] x ct gt None
                  = ([f1\<lparr>rl_buffer := b1\<rparr>, f2\<lparr>rl_buffer := b2\<rparr>], Inr (x2, Some sk))"
    using a sk(1) by (simp add: accumulate_skip_def)
  ultimately show "\<exists>sk. run_conv_layers [f1, f2] x ct gt None
                  = ([f1\<lparr>rl_buffer := b1\<rparr>, f2\<lparr>rl_buffer := b2\<rparr>], Inr (x2, Some sk))
               \<and> size_of sk = size_of h1
               \<and> (\<forall>idx. valid_index (size_of h1) idx \<longrightarrow>
                     elt sk idx = (elt h1 idx + elt h2 idx) * sqrt 0.5
                     \<and> (elt h1 idx + elt h2 idx \<noteq> 0 \<longrightarrow> elt sk idx \<noteq> elt h1 idx + elt h2 idx))"
    using sk(2) by blast
qed

theorem skip_accumulation_rule_witness:
  "\<exists>fs' x' sk.
     run_conv_layers [toy_residual 2 3, toy_residual 2 5] (full [1, 1, 2] 1) None None None
       = (fs', Inr (x', Some sk))
     \<and> size_of sk = [1, 1, 2]
     \<and> elt sk [0, 0, 1] = (3 + 5) * sqrt 0.5
     \<and> elt sk [0, 0, 1] \<noteq> 3 + 5"
proof -
  let ?x = "full [1, 1, 2] 1"
  let ?x1 = "tscale ?x (sqrt 0.5)"
  let ?x2 = "tscale ?x1 (sqrt 0.5)"
  let ?h1 = "full [1, 1, 2] 3" and ?h2 = "full [1, 1, 2] 5"
  have a: "rl_incremental (toy_residual 2 3) (rl_buffer (toy_residual 2 3)) ?x None None
             = Inr ((?x1, ?h1), Some ?x)
       \<and> rl_incremental (toy_residual 2 5) (rl_buffer (toy_residual 2 5)) ?x1 None None
             = Inr ((?x2, ?h2), Some ?x1)
       \<and> size_of ?h1 = size_of ?h2"
    by (simp add: toy_residual_def full_def tscale_def)
  from skip_accumulation_rule[THEN conjunct2, THEN conjunct2, THEN conjunct2, THEN mp, OF a]
  obtain sk where
    run: "run_conv_layers [toy_residual 2 3, toy_residual 2 5] ?x None None None
          = ([(toy_residual 2 3)\<lparr>rl_buffer := Some ?x\<rparr>, (toy_residual 2 5)\<lparr>rl_buffer := Some ?x1\<rparr>],
             Inr (?x2, Some sk))"
    and sz: "size_of sk = size_of ?h1"
    and el: "\<forall>idx. valid_index (size_of ?h1) idx \<longrightarrow>
                     elt sk idx = (elt ?h1 idx + elt ?h2 idx) * sqrt 0.5
                     \<and> (elt ?h1 idx + elt ?h2 idx \<noteq> 0 \<longrightarrow> elt sk idx \<noteq> elt ?h1 idx + elt ?h2 idx)"
    by blast
  have v: "valid_index (size_of ?h1) [0, 0, 1]" by (simp add: valid_index_def full_def)
  from el v have "elt sk [0, 0, 1] = (3 + 5) * sqrt 0.5" "elt sk [0, 0, 1] \<noteq> 3 + 5"
    by (simp_all add: full_def)
  with run sz show ?thesis by (auto simp: full_def)
qed

section \<open>The batch forward path reads only the size of its input\<close>

lemma init_toy: "init toy_ext (toy_config scalar oc) = Inr (toy_net scalar oc)"
  by (simp add: init_def toy_config_def toy_ext_def toy_net_def build_iaf_layer_def
      build_embedding_def build_upsample_def upto.simps power_int_def)

lemma forward_toy_returns:
  "\<exists>mu sc. forward toy_env (toy_net True 2) (full [1, 1, 2] v) None None = Inr (mu, sc)"
  by (simp add: forward_def full_def toy_env_def toy_net_def embed_g_def upsample_def
      iaf_layers_def iaf_step_def iaf_params_def toy_conv1x1_def toy_residual_def head_forward_def
      relu_def narrow_to_def narrow_from_def texp_def tmul_def tadd_def bop_def tscale_def
      broadcast_shape_def bdim_def compose_total_def compose_step_def
      upt_rec[of 0] upt_rec[of 1] upt_rec[of 2])

text \<open>
  Claim C7. \<^verbatim>\<open>forward\<close> is a function of the random source, the network, the
  conditioning and the input, so two calls in the same state of the random source give
  the same result; and of the input \<open>x\<close> it reads the size alone (lines 155, 156 and
  171): two inputs of one size, whatever their values, give the same pair of total shift
  and total scale, or the same exception.
\<close>

theorem forward_reads_size_only:
  "size_of x = size_of x' \<Longrightarrow> forward ev n x c g = forward ev n x' c g"
  unfolding forward_def by (simp only:)

theorem forward_reads_size_only_witness:
  "size_of (full [1, 1, 2] 0) = size_of (full [1, 1, 2] 5)
   \<and> elt (full [1, 1, 2] 0) [0, 0, 0] \<noteq> elt (full [1, 1, 2] 5) [0, 0, 0]
   \<and> forward toy_env (toy_net True 2) (full [1, 1, 2] 0) None None
       = forward toy_env (toy_net True 2) (full [1, 1, 2] 5) None None
   \<and> (\<exists>mu sc. forward toy_env (toy_net True 2) (full [1, 1, 2] 0) None None = Inr (mu, sc))"
proof -
  have sz: "size_of (full [1, 1, 2] 0) = size_of (full [1, 1, 2] 5)"
    by (simp add: full_def)
  have ne: "elt (full [1, 1, 2] 0) [0, 0, 0] \<noteq> elt (full [1, 1, 2] 5) [0, 0, 0]"
    by (simp add: full_def)
  from sz ne forward_reads_size_only[OF sz, of toy_env "toy_net True 2" None None]
    forward_toy_returns[of 0]
  show ?thesis by blast
qed

section \<open>Removing weight normalization twice\<close>

text \<open>
  The addresses in the order in which \<^verbatim>\<open>apply\<close> visits them, and what one visit
  leaves at an address.
\<close>

fun addresses :: "module \<Rightarrow> nat list" where
  "addresses (Module a children) = concat (map addresses children) @ [a]"

definition strip :: "parameters \<Rightarrow> parameters" where
  "strip p = (case p of WeightNorm g v \<Rightarrow> Weight (compute_weight g v) | _ \<Rightarrow> p)"

definition toy_module :: module where
  \<comment> \<open>the layer at address 1 is held twice, as a residual layer is\<close>
  "toy_module = Module 0 [Module 1 [], Module 2 [Module 1 [], Module 3 []]]"

definition toy_store :: store where
  "toy_store = (\<lambda>a. if a = 1 then WeightNorm [2] [[1, 0]]
                     else if a = 3 then Weight [[5]] else NoWeight)"

lemma remove_weight_norm_strip: "remove_weight_norm a st = Inr (st(a := strip (st a)))"
  by (cases "st a")
    (auto simp: remove_weight_norm_def torch_remove_weight_norm_def strip_def fun_upd_idem)

lemma strip_strip [simp]: "strip (strip p) = strip p"
  by (cases p) (simp_all add: strip_def)

lemma apply_fn_addresses: "apply_fn fn m st = for_loop (addresses m) fn st"
proof (induction fn m st rule: apply_fn.induct)
  case (1 fn a children st)
  have "set cs \<subseteq> set children \<Longrightarrow>
        for_loop cs (apply_fn fn) s = for_loop (concat (map addresses cs)) fn s" for cs s
  proof (induction cs arbitrary: s)
    case Nil
    then show ?case by simp
  next
    case (Cons c cs)
    then show ?case
      by (cases "for_loop (addresses c) fn s") (simp_all add: "1.IH" for_loop_append)
  qed
  then show ?case by (simp add: for_loop_snoc)
qed

lemma strip_all_addresses:
  "for_loop as remove_weight_norm st = Inr (\<lambda>a. if a \<in> set as then strip (st a) else st a)"
proof (induction as arbitrary: st)
  case Nil
  then show ?case by simp
next
  case (Cons b as)
  have "(\<lambda>a. if a \<in> set as then strip ((st(b := strip (st b))) a) else (st(b := strip (st b))) a)
        = (\<lambda>a. if a \<in> set (b # as) then strip (st a) else st a)"
    by (rule ext) simp
  with Cons show ?case by (simp add: remove_weight_norm_strip)
qed

lemma make_generation_fast_strips:
  "make_generation_fast self st
   = Inr (\<lambda>a. if a \<in> set (addresses self) then strip (st a) else st a)"
  by (simp add: make_generation_fast_def apply_fn_addresses strip_all_addresses)

text \<open>
  Claim C9. \<^verbatim>\<open>make_generation_fast_\<close> never raises: it returns the store in which
  every module of the network has its weight normalization folded into a plain weight,
  and a module without weight normalization is as it was. A second call returns the
  store of the first call unchanged.
\<close>

theorem make_generation_fast_idempotent:
  "\<exists>st'. make_generation_fast self st = Inr st'
         \<and> make_generation_fast self st' = Inr st'
         \<and> st' = (\<lambda>a. if a \<in> set (addresses self) then strip (st a) else st a)
         \<and> (\<forall>a. (\<forall>g v. st a \<noteq> WeightNorm g v) \<longrightarrow> st' a = st a)"
proof -
  let ?st' = "\<lambda>a. if a \<in> set (addresses self) then strip (st a) else st a"
  have "(\<lambda>a. if a \<in> set (addresses self) then strip (?st' a) else ?st' a) = ?st'"
    by (rule ext) simp
  then have "make_generation_fast self ?st' = Inr ?st'"
    by (simp only: make_generation_fast_strips)
  moreover have "\<forall>a. (\<forall>g v. st a \<noteq> WeightNorm g v) \<longrightarrow> ?st' a = st a"
    by (auto simp: strip_def split: parameters.splits)
  ultimately show ?thesis
    using make_generation_fast_strips[of self st] by blast
qed

theorem make_generation_fast_idempotent_witness:
  "\<exists>st'. make_generation_fast toy_module toy_store = Inr st'
         \<and> make_generation_fast toy_module st' = Inr st'
         \<and> st' 1 = Weight [[2, 0]] \<and> st' 3 = Weight [[5]] \<and> st' 0 = NoWeight"
proof -
  from make_generation_fast_idempotent[of toy_module toy_store] obtain st' where
    st': "make_generation_fast toy_module toy_store = Inr st'"
      "make_generation_fast toy_module st' = Inr st'"
      "st' = (\<lambda>a. if a \<in> set (addresses toy_module) then strip (toy_store a) else toy_store a)"
    by blast
  have "st' 1 = Weight [[2, 0]]" "st' 3 = Weight [[5]]" "st' 0 = NoWeight"
    by (simp_all add: st'(3) toy_module_def toy_store_def strip_def compute_weight_def
        norm_except_dim0_def)
  with st'(1,2) show ?thesis by blast
qed

section \<open>The default initial sample\<close>

text \<open>
  Claim C10. With no initial input in quantized mode, the default initial sample is the
  tensor of size \<open>(B, 1, out_channels)\<close> that is 1 at position 127 of its last
  dimension and 0 elsewhere, provided \<^verbatim>\<open>out_channels\<close> is greater than 127. For
  \<^verbatim>\<open>out_channels\<close> from 0 to 127 the assignment of line 270 raises IndexError (and a
  negative \<^verbatim>\<open>out_channels\<close> is no size for \<^verbatim>\<open>torch.zeros\<close>), so the default is defined
  exactly when \<^verbatim>\<open>out_channels\<close> is greater than 127.
\<close>

theorem default_initial_input_quantized:
  "\<not> scalar_input n \<Longrightarrow>
     (127 < out_channels n \<longrightarrow>
        (\<exists>t. initial_sample n B None = Inr t
            \<and> size_of t = [B, 1, nat (out_channels n)]
            \<and> (\<forall>b k. elt t [b, 0, k] = (if k = 127 then 1 else 0))))
   \<and> (0 \<le> out_channels n \<and> out_channels n \<le> 127 \<longrightarrow> initial_sample n B None = Inl IndexError)
   \<and> (out_channels n < 0 \<longrightarrow> initial_sample n B None = Inl RuntimeError)"
  by (auto simp: initial_sample_def default_initial_input_def assign_last3_def full_def)

theorem default_initial_input_quantized_witness:
  "\<not> scalar_input ((toy_net False 2)\<lparr>out_channels := 256\<rparr>)
   \<and> (\<exists>t. initial_sample ((toy_net False 2)\<lparr>out_channels := 256\<rparr>) 1 None = Inr t
          \<and> size_of t = [1, 1, 256] \<and> elt t [0, 0, 127] = 1 \<and> elt t [0, 0, 126] = 0)
   \<and> \<not> scalar_input ((toy_net False 2)\<lparr>out_channels := 127\<rparr>)
   \<and> initial_sample ((toy_net False 2)\<lparr>out_channels := 127\<rparr>) 1 None = Inl IndexError"
proof -
  have a: "\<not> scalar_input ((toy_net False 2)\<lparr>out_channels := 256\<rparr>)"
    and b: "\<not> scalar_input ((toy_net False 2)\<lparr>out_channels := 127\<rparr>)"
    by (simp_all add: toy_net_def)
  from default_initial_input_quantized[OF a, of 1] obtain t where
    "initial_sample ((toy_net False 2)\<lparr>out_channels := 256\<rparr>) 1 None = Inr t"
    "size_of t = [1, 1, 256]" "\<forall>b k. elt t [b, 0, k] = (if k = 127 then 1 else 0)"
    by auto
  moreover from this(3) have "elt t [0, 0, 127] = 1" "elt t [0, 0, 126] = 0" by simp_all
  moreover from default_initial_input_quantized[OF b, of 1]
  have "initial_sample ((toy_net False 2)\<lparr>out_channels := 127\<rparr>) 1 None = Inl IndexError"
    by simp
  ultimately show ?thesis using a b by blast
qed

end
